theory Spec2Isabelle
  imports Complex_Main
begin

section \<open>Python values\<close>

text \<open>
  A Python \<open>str\<close> is a sequence of Unicode code points, so a text is a list of naturals.
  \<open>lit\<close> turns an ASCII literal of the source into such a text; the three pictographs of
  the source are written by their code point.
\<close>

type_synonym pystr = "nat list"

definition lit :: "string \<Rightarrow> pystr" where
  "lit s = map of_char s"

text \<open>
  \<open>str.strip()\<close> without argument removes the code points for which \<open>str.isspace\<close>
  holds from both ends.
\<close>

definition isspace :: "nat \<Rightarrow> bool" where
  "isspace c \<longleftrightarrow>
     (9 \<le> c \<and> c \<le> 13) \<or> (28 \<le> c \<and> c \<le> 32) \<or> c = 133 \<or> c = 160 \<or> c = 5760 \<or>
     (8192 \<le> c \<and> c \<le> 8202) \<or> c = 8232 \<or> c = 8233 \<or> c = 8239 \<or> c = 8287 \<or> c = 12288"

definition lstrip :: "pystr \<Rightarrow> pystr" where
  "lstrip s = dropWhile isspace s"

definition rstrip :: "pystr \<Rightarrow> pystr" where
  "rstrip s = rev (dropWhile isspace (rev s))"

definition strip :: "pystr \<Rightarrow> pystr" where
  "strip s = rstrip (lstrip s)"

text \<open>
  An exception is known by its class and by what \<open>str(e)\<close> gives. The type stands for
  the instances of \<open>Exception\<close>, the class both handlers of the source name.
\<close>

datatype pyexn = PyExn (exn_class: string) (exn_str: pystr)

section \<open>Data of the session\<close>

text \<open>The input of a bash tool call: \<open>command\<close> and \<open>restart\<close>, either of which may be absent.\<close>

record tool_input =
  command :: "pystr option"
  restart :: "bool option"

text \<open>The content blocks of a provider response.\<close>

datatype block =
    TextBlock pystr
  | ToolUseBlock pystr pystr tool_input  \<comment> \<open>id, name, input\<close>

text \<open>
  The tool-result envelope: \<open>type\<close> is always \<open>tool_result\<close>, \<open>content\<close> is a list of
  text blocks.
\<close>

datatype text_param = TextParam (param_text: pystr)

record envelope =
  env_content :: "text_param list"
  tool_use_id :: pystr
  is_error :: bool

record tool_output =
  tool_call_id :: pystr
  call_output :: envelope  \<comment> \<open>the key \<open>output\<close>\<close>

text \<open>The blocks of a message of the history, and the messages.\<close>

datatype param =
    TextP pystr
  | ToolUseP pystr pystr tool_input
  | ToolResultP envelope

record message =
  role :: pystr
  msg_content :: "param list"

record response =
  stop_reason :: pystr
  resp_content :: "block list"
  input_tokens :: int
  output_tokens :: int

text \<open>
  What a process leaves when it has exited: its status and the bytes it wrote to its two
  pipes. A byte is a \<open>char\<close>.
\<close>

record exited =
  exit_status :: int
  out_bytes :: string
  err_bytes :: string

text \<open>What \<open>subprocess.run\<close> returns, here with \<open>text=True\<close>: the two outputs as texts.\<close>

record completed =
  returncode :: int
  stdout :: pystr
  stderr :: pystr

type_synonym environ = "pystr \<rightharpoonup> pystr"

text \<open>The dictionary the executor returns, with the key \<open>content\<close> or the key \<open>error\<close>.\<close>

type_synonym result = "string \<rightharpoonup> pystr"

section \<open>The session log and the usage counters\<close>

datatype level = INFO | ERROR

text \<open>
  A log message is kept as its format and the values the f-string interpolates, so that
  the \<open>repr\<close> of a dictionary and the text of a traceback need no rendering. The costs are
  computed by the source in binary floating point; the model keeps the exact rational
  the expression denotes, and no statement below depends on the rounding.
\<close>

datatype log_msg =
    Restarted                          \<comment> \<open>Bash session restarted.\<close>
  | NoCommand                          \<comment> \<open>No command provided to execute.\<close>
  | MockExecuting pystr                \<comment> \<open>Mock executing bash command: ..\<close>
  | Executing pystr                    \<comment> \<open>Executing bash command: ..\<close>
  | CommandOutput pystr pystr          \<comment> \<open>the first 20 code points of the command, the output\<close>
  | CommandErrorOutput pystr pystr     \<comment> \<open>the command, the error output\<close>
  | HandlerError pystr                 \<comment> \<open>Error in \_handle\_bash\_command: ..\<close>
  | ProcessError pystr                 \<comment> \<open>Error in process\_bash\_command: ..\<close>
  | Traceback pyexn                    \<comment> \<open>traceback.format\_exc()\<close>
  | BashToolCallInput tool_input       \<comment> \<open>Bash tool call input: ..\<close>
  | UserInput message                  \<comment> \<open>User input: ..\<close>
  | ApiUsage int int                   \<comment> \<open>API usage: input\_tokens=.., output\_tokens=..\<close>
  | ApiResponse response               \<comment> \<open>API response: ..\<close>
  | ErrorContent "text_param list"     \<comment> \<open>Error: ..\<close>
  | TotalInputTokens int
  | TotalOutputTokens int
  | TotalInputCost rat
  | TotalOutputCost rat
  | TotalCost rat

text \<open>A record of the log: level, prefix, message (time stamp and logger name left out).\<close>

type_synonym log_record = "level \<times> pystr \<times> log_msg"

definition bash_prefix :: pystr where
  "bash_prefix = 128026 # lit '' bash''"

definition session_prefix :: pystr where
  "session_prefix = 128202 # lit '' session''"

record session_logger =
  records :: "log_record list"
  total_input_tokens :: int
  total_output_tokens :: int

definition update_token_usage :: "int \<Rightarrow> int \<Rightarrow> session_logger \<Rightarrow> session_logger" where
  "update_token_usage inp outp sl =
     sl\<lparr>total_input_tokens := total_input_tokens sl + inp,
        total_output_tokens := total_output_tokens sl + outp\<rparr>"

definition total_input_cost :: "session_logger \<Rightarrow> rat" where
  "total_input_cost sl = (of_int (total_input_tokens sl) / 1000000) * 3"

definition total_output_cost :: "session_logger \<Rightarrow> rat" where
  "total_output_cost sl = (of_int (total_output_tokens sl) / 1000000) * 15"

definition total_cost :: "session_logger \<Rightarrow> rat" where
  "total_cost sl = total_input_cost sl + total_output_cost sl"

definition log_total_cost :: "session_logger \<Rightarrow> session_logger" where
  "log_total_cost sl =
     sl\<lparr>records := records sl @
        [(INFO, session_prefix, TotalInputTokens (total_input_tokens sl)),
         (INFO, session_prefix, TotalOutputTokens (total_output_tokens sl)),
         (INFO, session_prefix, TotalInputCost (total_input_cost sl)),
         (INFO, session_prefix, TotalOutputCost (total_output_cost sl)),
         (INFO, session_prefix, TotalCost (total_cost sl))]\<rparr>"

section \<open>The bash session\<close>

text \<open>
  The fields of \<open>BashSession\<close>. \<open>session_logger\<close> is \<open>None\<close> until \<open>set_logger\<close> has
  run: the constructor leaves \<open>self.logger\<close> at \<open>None\<close>, and \<open>set_logger\<close> sets it together
  with \<open>self.session_logger\<close>. \<open>printed\<close> is what \<open>print\<close> has written, \<open>world\<close> is the
  state of the host and of the provider that the two external calls read and change.
\<close>

record 'w bash_session =
  messages :: "message list"
  current_tool_calls :: "(pystr \<times> pystr) list"  \<comment> \<open>command, id\<close>
  environment :: environ
  session_logger :: "session_logger option"
  no_agi :: bool
  printed :: "pystr list"
  world :: 'w

definition set_logger :: "session_logger \<Rightarrow> 'w bash_session \<Rightarrow> 'w bash_session" where
  "set_logger sl s = s\<lparr>session_logger := Some sl\<rparr>"

text \<open>
  The host behind \<open>subprocess.run\<close>: \<open>popen\<close> starts \<open>/bin/bash -c command\<close> with the given
  environment and waits for it, or raises when it cannot (\<open>OSError\<close>, \<open>ValueError\<close>);
  \<open>decode_text\<close> is \<open>bytes.decode\<close> in the encoding of the locale with \<open>errors='strict'\<close>,
  which \<open>text=True\<close> selects. The completion provider is the other external call.
\<close>

record 'w shell =
  popen :: "'w \<Rightarrow> pystr \<Rightarrow> environ \<Rightarrow> (pyexn + exited) \<times> 'w"
  decode_text :: "string \<Rightarrow> pyexn + pystr"

type_synonym 'w provider = "'w \<Rightarrow> message list \<Rightarrow> (pyexn + response) \<times> 'w"

subsection \<open>Statements that may raise\<close>

text \<open>
  A statement takes the session and gives back either the exception it raised or its
  value, with the session as it left it.
\<close>

type_synonym ('a, 'w) stmt = "'w bash_session \<Rightarrow> (pyexn + 'a) \<times> 'w bash_session"

definition ret :: "'a \<Rightarrow> ('a, 'w) stmt" where
  "ret x = (\<lambda>s. (Inr x, s))"

definition raise :: "pyexn \<Rightarrow> ('a, 'w) stmt" where
  "raise e = (\<lambda>s. (Inl e, s))"

definition and_then :: "('a, 'w) stmt \<Rightarrow> ('a \<Rightarrow> ('b, 'w) stmt) \<Rightarrow> ('b, 'w) stmt" where
  "and_then m f = (\<lambda>s. case m s of (Inl e, s') \<Rightarrow> (Inl e, s') | (Inr x, s') \<Rightarrow> f x s')"

definition try_except :: "('a, 'w) stmt \<Rightarrow> (pyexn \<Rightarrow> ('a, 'w) stmt) \<Rightarrow> ('a, 'w) stmt" where
  "try_except m h = (\<lambda>s. case m s of (Inl e, s') \<Rightarrow> h e s' | (Inr x, s') \<Rightarrow> (Inr x, s'))"

definition modify :: "('w bash_session \<Rightarrow> 'w bash_session) \<Rightarrow> (unit, 'w) stmt" where
  "modify f = (\<lambda>s. (Inr (), f s))"

text \<open>
  \<open>self.logger.info(..)\<close> and \<open>self.logger.error(..)\<close>: an \<open>AttributeError\<close> while the logger
  is \<open>None\<close>, one more record of the log otherwise.
\<close>

definition none_has_no_attribute :: "level \<Rightarrow> pyexn" where
  "none_has_no_attribute lvl =
     PyExn ''AttributeError''
       (39 # lit ''NoneType'' @ 39 # lit '' object has no attribute '' @ 39 #
        (case lvl of INFO \<Rightarrow> lit ''info'' | ERROR \<Rightarrow> lit ''error'') @ [39])"

definition logger_log :: "level \<Rightarrow> log_msg \<Rightarrow> (unit, 'w) stmt" where
  "logger_log lvl m = (\<lambda>s.
     case session_logger s of
       None \<Rightarrow> (Inl (none_has_no_attribute lvl), s)
     | Some sl \<Rightarrow>
         (Inr (), s\<lparr>session_logger := Some (sl\<lparr>records := records sl @ [(lvl, bash_prefix, m)]\<rparr>)\<rparr>))"

subsection \<open>The command executor\<close>

text \<open>
  The universal newlines of the text mode:
  \<open>data.replace("\r\n", "\n").replace("\r", "\n")\<close>.
\<close>

fun replace_crlf :: "pystr \<Rightarrow> pystr" where
  "replace_crlf (x # y # xs) =
     (if x = 13 \<and> y = 10 then 10 # replace_crlf xs else x # replace_crlf (y # xs))"
| "replace_crlf [x] = [x]"
| "replace_crlf [] = []"

definition translate_newlines :: "pystr \<Rightarrow> pystr" where
  "translate_newlines data = map (\<lambda>c. if c = 13 then 10 else c) (replace_crlf data)"

text \<open>
  \<open>subprocess.run(command, shell=True, stdout=PIPE, stderr=PIPE, env=.., text=True,
  executable="/bin/bash")\<close>: the process is started and waited for; once it has exited,
  what it wrote is decoded, the standard output first, and either decoding may raise
  \<open>UnicodeDecodeError\<close>; otherwise the completed process is returned.
\<close>

definition subprocess_run ::
  "'w shell \<Rightarrow> 'w \<Rightarrow> pystr \<Rightarrow> environ \<Rightarrow> (pyexn + completed) \<times> 'w" where
  "subprocess_run sh w cmd env =
     (case popen sh w cmd env of
        (Inl e, w') \<Rightarrow> (Inl e, w')
      | (Inr p, w') \<Rightarrow>
          (case decode_text sh (out_bytes p) of
             Inl e \<Rightarrow> (Inl e, w')
           | Inr out \<Rightarrow>
               (case decode_text sh (err_bytes p) of
                  Inl e \<Rightarrow> (Inl e, w')
                | Inr err \<Rightarrow>
                    (Inr \<lparr>returncode = exit_status p, stdout = translate_newlines out,
                          stderr = translate_newlines err\<rparr>, w'))))"

definition call_subprocess_run :: "'w shell \<Rightarrow> pystr \<Rightarrow> (completed, 'w) stmt" where
  "call_subprocess_run sh cmd = (\<lambda>s.
     case subprocess_run sh (world s) cmd (environment s) of
       (r, w') \<Rightarrow> (r, s\<lparr>world := w'\<rparr>))"

definition dry_run_marker :: pystr where
  "dry_run_marker = 128269 # lit '' Dry Run:''"

text \<open>
  The body of the \<open>try\<close> of \<open>_handle_bash_command\<close> (an Isabelle name cannot start with an
  underscore). \<open>os_environ\<close> is the ambient process environment.
\<close>

definition handle_bash_command_body ::
  "'w shell \<Rightarrow> environ \<Rightarrow> tool_input \<Rightarrow> (result, 'w) stmt" where
  "handle_bash_command_body sh os_environ tool_call =
     (let cmd = command tool_call;
          rst = (case restart tool_call of None \<Rightarrow> False | Some b \<Rightarrow> b)
      in
      if rst then
        and_then (modify (\<lambda>s. s\<lparr>environment := os_environ\<rparr>)) (\<lambda>_.
        and_then (logger_log INFO Restarted) (\<lambda>_.
        ret [''content'' \<mapsto> lit ''Bash session restarted.'']))
      else if cmd = None \<or> cmd = Some [] then
        and_then (logger_log ERROR NoCommand) (\<lambda>_.
        ret [''error'' \<mapsto> lit ''No command provided to execute.''])
      else
        (\<lambda>s.
          if no_agi s then
            and_then (logger_log INFO (MockExecuting (the cmd))) (\<lambda>_.
            ret [''content'' \<mapsto> dry_run_marker @ lit '' Would execute command: '' @ the cmd]) s
          else
            and_then (logger_log INFO (Executing (the cmd))) (\<lambda>_.
            and_then (call_subprocess_run sh (the cmd)) (\<lambda>res.
            let out = strip (stdout res);
                error_output = strip (stderr res)
            in
            and_then (if out \<noteq> [] then logger_log INFO (CommandOutput (take 20 (the cmd)) out)
                      else ret ()) (\<lambda>_.
            and_then (if error_output \<noteq> []
                      then logger_log ERROR (CommandErrorOutput (the cmd) error_output)
                      else ret ()) (\<lambda>_.
            if returncode res \<noteq> 0 then
              ret [''error'' \<mapsto>
                     (if error_output \<noteq> [] then error_output
                      else lit ''Command execution failed.'')]
            else
              ret [''content'' \<mapsto> out])))) s))"

text \<open>The \<open>except Exception\<close> of \<open>_handle_bash_command\<close>.\<close>

definition handle_bash_command ::
  "'w shell \<Rightarrow> environ \<Rightarrow> tool_input \<Rightarrow> (result, 'w) stmt" where
  "handle_bash_command sh os_environ tool_call =
     try_except (handle_bash_command_body sh os_environ tool_call) (\<lambda>e.
       and_then (logger_log ERROR (HandlerError (exn_str e))) (\<lambda>_.
       and_then (logger_log ERROR (Traceback e)) (\<lambda>_.
       ret [''error'' \<mapsto> exn_str e])))"

section \<open>The tool-call router\<close>

text \<open>
  The conversion of the executor's dictionary into the envelope: \<open>result.get("error")\<close> is
  tested for truth, so an absent key and an empty text both take the second branch.
\<close>

definition tool_result_envelope :: "pystr \<Rightarrow> result \<Rightarrow> envelope" where
  "tool_result_envelope tid res =
     (if res ''error'' \<noteq> None \<and> res ''error'' \<noteq> Some [] then
        \<lparr>env_content = [TextParam (the (res ''error''))], tool_use_id = tid, is_error = True\<rparr>
      else
        \<lparr>env_content = [TextParam (case res ''content'' of None \<Rightarrow> [] | Some c \<Rightarrow> c)],
         tool_use_id = tid, is_error = False\<rparr>)"

text \<open>The body of the \<open>for\<close> of \<open>process_tool_calls\<close>.\<close>

definition process_tool_call ::
  "'w shell \<Rightarrow> environ \<Rightarrow> block \<Rightarrow> tool_output list \<Rightarrow> (tool_output list, 'w) stmt" where
  "process_tool_call sh os_environ tool_call results =
     (case tool_call of
        TextBlock _ \<Rightarrow> ret results
      | ToolUseBlock tid name inp \<Rightarrow>
          if name = lit ''bash'' then
            and_then (logger_log INFO (BashToolCallInput inp)) (\<lambda>_.
            and_then (modify (\<lambda>s. s\<lparr>current_tool_calls := current_tool_calls s @
                        [(case command inp of None \<Rightarrow> [] | Some c \<Rightarrow> c, tid)]\<rparr>)) (\<lambda>_.
            and_then (handle_bash_command sh os_environ inp) (\<lambda>res.
            ret (results @
                   [\<lparr>tool_call_id = tid, call_output = tool_result_envelope tid res\<rparr>]))))
          else ret results)"

fun for_tool_calls ::
  "'w shell \<Rightarrow> environ \<Rightarrow> block list \<Rightarrow> tool_output list \<Rightarrow> (tool_output list, 'w) stmt" where
  "for_tool_calls sh os_environ [] results = ret results"
| "for_tool_calls sh os_environ (tool_call # rest) results =
     and_then (process_tool_call sh os_environ tool_call results)
       (for_tool_calls sh os_environ rest)"

definition process_tool_calls ::
  "'w shell \<Rightarrow> environ \<Rightarrow> block list \<Rightarrow> (tool_output list, 'w) stmt" where
  "process_tool_calls sh os_environ tool_calls =
     and_then (modify (\<lambda>s. s\<lparr>current_tool_calls := []\<rparr>)) (\<lambda>_.
     for_tool_calls sh os_environ tool_calls [])"

section \<open>The agent loop\<close>

definition messages_create :: "'w provider \<Rightarrow> (response, 'w) stmt" where
  "messages_create llm = (\<lambda>s.
     case llm (world s) (messages s) of (r, w') \<Rightarrow> (r, s\<lparr>world := w'\<rparr>))"

definition no_session_logger :: pyexn where
  "no_session_logger =
     PyExn ''AttributeError''
       (39 # lit ''BashSession'' @ 39 # lit '' object has no attribute '' @ 39 #
        lit ''session_logger'' @ [39])"

text \<open>The two calls through \<open>self.session_logger\<close>.\<close>

definition session_update_token_usage :: "int \<Rightarrow> int \<Rightarrow> (unit, 'w) stmt" where
  "session_update_token_usage inp outp = (\<lambda>s.
     case session_logger s of
       None \<Rightarrow> (Inl no_session_logger, s)
     | Some sl \<Rightarrow> (Inr (), s\<lparr>session_logger := Some (update_token_usage inp outp sl)\<rparr>))"

definition session_log_total_cost :: "(unit, 'w) stmt" where
  "session_log_total_cost = (\<lambda>s.
     case session_logger s of
       None \<Rightarrow> (Inl no_session_logger, s)
     | Some sl \<Rightarrow> (Inr (), s\<lparr>session_logger := Some (log_total_cost sl)\<rparr>))"

fun block_param :: "block \<Rightarrow> param" where
  "block_param (TextBlock t) = TextP t"
| "block_param (ToolUseBlock tid name inp) = ToolUseP tid name inp"

definition append_message :: "pystr \<Rightarrow> param list \<Rightarrow> (unit, 'w) stmt" where
  "append_message r c = modify (\<lambda>s. s\<lparr>messages := messages s @ [\<lparr>role = r, msg_content = c\<rparr>]\<rparr>)"

text \<open>The two ways out of the \<open>while\<close>: the \<open>break\<close> after the print, and the \<open>break\<close> after a tool error.\<close>

datatype loop_exit = FinalAnswer | Aborted

text \<open>
  The first half of the body of \<open>while True\<close>: the provider is called with the history,
  the usage is logged and counted, the response is logged and appended to the history as
  the assistant's turn.
\<close>

definition receive_response :: "'w provider \<Rightarrow> (response, 'w) stmt" where
  "receive_response llm =
     and_then (messages_create llm) (\<lambda>response.
     and_then (logger_log INFO (ApiUsage (input_tokens response) (output_tokens response))) (\<lambda>_.
     and_then (session_update_token_usage (input_tokens response) (output_tokens response)) (\<lambda>_.
     and_then (logger_log INFO (ApiResponse response)) (\<lambda>_.
     and_then (append_message (lit ''assistant'') (map block_param (resp_content response))) (\<lambda>_.
     ret response)))))"

text \<open>
  One pass through the body of \<open>while True\<close>: an exception, a \<open>break\<close> (\<open>Some\<close>), or the
  end of the body (\<open>None\<close>), after which the loop goes round again. \<open>response.content[0].text\<close>
  raises on an empty list and on a first block that is not a text block.
\<close>

definition loop_round ::
  "'w provider \<Rightarrow> 'w shell \<Rightarrow> environ \<Rightarrow> (loop_exit option, 'w) stmt" where
  "loop_round llm sh os_environ =
     and_then (receive_response llm) (\<lambda>response.
     if stop_reason response \<noteq> lit ''tool_use'' then
       (case resp_content response of
          [] \<Rightarrow> raise (PyExn ''IndexError'' (lit ''list index out of range''))
        | TextBlock t # _ \<Rightarrow>
            and_then (modify (\<lambda>s. s\<lparr>printed := printed s @ [t]\<rparr>)) (\<lambda>_.
            ret (Some FinalAnswer))
        | ToolUseBlock _ _ _ # _ \<Rightarrow>
            raise (PyExn ''AttributeError''
                     (39 # lit ''BetaToolUseBlock'' @ 39 # lit '' object has no attribute '' @ 39 #
                      lit ''text'' @ [39])))
     else
       and_then (process_tool_calls sh os_environ (resp_content response)) (\<lambda>tool_results.
       case tool_results of
         [] \<Rightarrow> ret None
       | r # _ \<Rightarrow>
           and_then (append_message (lit ''user'') [ToolResultP (call_output r)]) (\<lambda>_.
           if is_error (call_output r) then
             and_then (logger_log ERROR (ErrorContent (env_content (call_output r)))) (\<lambda>_.
             ret (Some Aborted))
           else ret None)))"

text \<open>
  The \<open>while True\<close> of \<open>process_bash_command\<close>. A run that never leaves the loop has the
  value \<open>None\<close>.
\<close>

partial_function (option) agent_loop ::
  "'w provider \<Rightarrow> 'w shell \<Rightarrow> environ \<Rightarrow> 'w bash_session \<Rightarrow>
     ((pyexn + loop_exit) \<times> 'w bash_session) option" where
  "agent_loop llm sh os_environ s =
     (case loop_round llm sh os_environ s of
        (Inl e, s') \<Rightarrow> Some (Inl e, s')
      | (Inr (Some x), s') \<Rightarrow> Some (Inr x, s')
      | (Inr None, s') \<Rightarrow> agent_loop llm sh os_environ s')"

text \<open>A turn of the stored conversation, with its keys \<open>role\<close> and \<open>content\<close>.\<close>

record history_msg =
  h_role :: pystr
  h_content :: pystr

definition api_messages_of :: "history_msg list \<Rightarrow> message list" where
  "api_messages_of conversation_history =
     map (\<lambda>m. \<lparr>role = h_role m, msg_content = [TextP (h_content m)]\<rparr>)
       (filter (\<lambda>m. h_role m = lit ''user'' \<or> h_role m = lit ''assistant'') conversation_history)"

text \<open>\<open>process_bash_command\<close> up to the loop.\<close>

definition process_prelude :: "pystr \<Rightarrow> history_msg list \<Rightarrow> (unit, 'w) stmt" where
  "process_prelude bash_prompt conversation_history = (\<lambda>s.
     let prompt = (if no_agi s then lit ''[DRY RUN MODE ENABLED] '' @ bash_prompt
                   else bash_prompt);
         api_messages = api_messages_of conversation_history @
                          [\<lparr>role = lit ''user'', msg_content = [TextP prompt]\<rparr>]
     in and_then (modify (\<lambda>s. s\<lparr>messages := api_messages\<rparr>)) (\<lambda>_.
        logger_log INFO (UserInput (last api_messages))) s)"

text \<open>The outer \<open>except Exception\<close>, which logs and raises again.\<close>

definition process_handler :: "pyexn \<Rightarrow> (unit, 'w) stmt" where
  "process_handler e =
     and_then (logger_log ERROR (ProcessError (exn_str e))) (\<lambda>_.
     and_then (logger_log ERROR (Traceback e)) (\<lambda>_.
     raise e))"

definition process_bash_command ::
  "'w provider \<Rightarrow> 'w shell \<Rightarrow> environ \<Rightarrow> pystr \<Rightarrow> history_msg list \<Rightarrow> 'w bash_session \<Rightarrow>
     ((pyexn + unit) \<times> 'w bash_session) option" where
  "process_bash_command llm sh os_environ bash_prompt conversation_history s =
     (case process_prelude bash_prompt conversation_history s of
        (Inl e, s1) \<Rightarrow> Some (process_handler e s1)
      | (Inr _, s1) \<Rightarrow>
          (case agent_loop llm sh os_environ s1 of
             None \<Rightarrow> None
           | Some (Inl e, s2) \<Rightarrow> Some (process_handler e s2)
           | Some (Inr _, s2) \<Rightarrow> Some (try_except session_log_total_cost process_handler s2)))"

text \<open>
  The state after \<open>n\<close> passes through the body, none of which left the loop or raised.
\<close>

fun rounds ::
  "'w provider \<Rightarrow> 'w shell \<Rightarrow> environ \<Rightarrow> nat \<Rightarrow> 'w bash_session \<Rightarrow> 'w bash_session option" where
  "rounds llm sh os_environ 0 s = Some s"
| "rounds llm sh os_environ (Suc n) s =
     (case loop_round llm sh os_environ s of
        (Inr None, s') \<Rightarrow> rounds llm sh os_environ n s'
      | _ \<Rightarrow> None)"

section \<open>What the caller shows\<close>

text \<open>
  \<open>process_bot_response\<close> of \<open>main.py\<close> reads the answer from the history: the first text
  block of the last turn of the assistant, the empty text when there is none.
\<close>

fun first_text :: "param list \<Rightarrow> pystr" where
  "first_text [] = []"
| "first_text (TextP t # _) = t"
| "first_text (_ # rest) = first_text rest"

definition response_text :: "message list \<Rightarrow> pystr" where
  "response_text msgs =
     (case filter (\<lambda>m. role m = lit ''assistant'') (rev msgs) of
        [] \<Rightarrow> []
      | m # _ \<Rightarrow> first_text (msg_content m))"

section \<open>Creating a session\<close>

text \<open>The two constructors, and \<open>init_session\<close> of \<open>main.py\<close>, which joins them.\<close>

definition new_session_logger :: session_logger where
  "new_session_logger = \<lparr>records = [], total_input_tokens = 0, total_output_tokens = 0\<rparr>"

definition new_bash_session :: "bool \<Rightarrow> environ \<Rightarrow> 'w \<Rightarrow> 'w bash_session" where
  "new_bash_session dry os_environ w =
     \<lparr>messages = [], current_tool_calls = [], environment = os_environ,
      session_logger = None, no_agi = dry, printed = [], world = w\<rparr>"

definition init_session :: "bool \<Rightarrow> environ \<Rightarrow> 'w \<Rightarrow> 'w bash_session" where
  "init_session dry_mode os_environ w =
     set_logger new_session_logger (new_bash_session dry_mode os_environ w)"

section \<open>Fixed answers for concrete runs\<close>

text \<open>
  A shell and a provider with fixed answers, on which the statements below are checked
  at concrete inputs. The world is a pair of counters: the calls of the provider and the
  processes spawned.
\<close>

text \<open>The UTF-8 codec with \<open>errors='strict'\<close>, and the text of its \<open>UnicodeDecodeError\<close>.\<close>

definition hex2 :: "nat \<Rightarrow> pystr" where
  "hex2 b =
     [(if b div 16 < 10 then 48 + b div 16 else 87 + b div 16),
      (if b mod 16 < 10 then 48 + b mod 16 else 87 + b mod 16)]"

fun decimal :: "nat \<Rightarrow> pystr" where
  "decimal n = (if n < 10 then [48 + n] else decimal (n div 10) @ [48 + n mod 10])"

definition decode_error :: "nat \<Rightarrow> nat \<Rightarrow> nat \<Rightarrow> string \<Rightarrow> pyexn" where
  "decode_error b start stop reason =
     PyExn ''UnicodeDecodeError''
       (39 # lit ''utf-8'' @ 39 # lit '' codec can'' @ 39 #
        (if stop = start + 1
         then lit ''t decode byte 0x'' @ hex2 b @ lit '' in position '' @ decimal start
         else lit ''t decode bytes in position '' @ decimal start @ 45 # decimal (stop - 1)) @
        lit '': '' @ lit reason)"

definition is_continuation :: "nat \<Rightarrow> bool" where
  "is_continuation c \<longleftrightarrow> 128 \<le> c \<and> c < 192"

definition emit :: "nat \<Rightarrow> pyexn + pystr \<Rightarrow> pyexn + pystr" where
  "emit c r = (case r of Inl e \<Rightarrow> Inl e | Inr cs \<Rightarrow> Inr (c # cs))"

fun utf8_decode_from :: "nat \<Rightarrow> nat list \<Rightarrow> pyexn + pystr" where
  "utf8_decode_from pos [] = Inr []"
| "utf8_decode_from pos (ch # rest) =
     (if ch < 128 then emit ch (utf8_decode_from (pos + 1) rest)
      else if ch < 194 then Inl (decode_error ch pos (pos + 1) ''invalid start byte'')
      else if ch < 224 then
        (case rest of
           [] \<Rightarrow> Inl (decode_error ch pos (pos + 1) ''unexpected end of data'')
         | ch2 # r2 \<Rightarrow>
             if \<not> is_continuation ch2
             then Inl (decode_error ch pos (pos + 1) ''invalid continuation byte'')
             else emit (ch mod 32 * 64 + ch2 mod 64) (utf8_decode_from (pos + 2) r2))
      else if ch < 240 then
        (case rest of
           [] \<Rightarrow> Inl (decode_error ch pos (pos + 1) ''unexpected end of data'')
         | ch2 # r2 \<Rightarrow>
             if \<not> is_continuation ch2 \<or> (if ch2 < 160 then ch = 224 else ch = 237)
             then Inl (decode_error ch pos (pos + 1) ''invalid continuation byte'')
             else
               (case r2 of
                  [] \<Rightarrow> Inl (decode_error ch pos (pos + 2) ''unexpected end of data'')
                | ch3 # r3 \<Rightarrow>
                    if \<not> is_continuation ch3
                    then Inl (decode_error ch pos (pos + 2) ''invalid continuation byte'')
                    else emit ((ch mod 16 * 64 + ch2 mod 64) * 64 + ch3 mod 64)
                           (utf8_decode_from (pos + 3) r3)))
      else if ch < 245 then
        (case rest of
           [] \<Rightarrow> Inl (decode_error ch pos (pos + 1) ''unexpected end of data'')
         | ch2 # r2 \<Rightarrow>
             if \<not> is_continuation ch2 \<or> (if ch2 < 144 then ch = 240 else ch = 244)
             then Inl (decode_error ch pos (pos + 1) ''invalid continuation byte'')
             else
               (case r2 of
                  [] \<Rightarrow> Inl (decode_error ch pos (pos + 2) ''unexpected end of data'')
                | ch3 # r3 \<Rightarrow>
                    if \<not> is_continuation ch3
                    then Inl (decode_error ch pos (pos + 2) ''invalid continuation byte'')
                    else
                      (case r3 of
                         [] \<Rightarrow> Inl (decode_error ch pos (pos + 3) ''unexpected end of data'')
                       | ch4 # r4 \<Rightarrow>
                           if \<not> is_continuation ch4
                           then Inl (decode_error ch pos (pos + 3) ''invalid continuation byte'')
                           else emit (((ch mod 8 * 64 + ch2 mod 64) * 64 + ch3 mod 64) * 64 +
                                      ch4 mod 64)
                                  (utf8_decode_from (pos + 4) r4))))
      else Inl (decode_error ch pos (pos + 1) ''invalid start byte''))"

definition utf8_decode :: "string \<Rightarrow> pyexn + pystr" where
  "utf8_decode bs = utf8_decode_from 0 (map of_char bs)"

text \<open>The command \<open>printf '\377'\<close>, which writes the single byte \<open>0xff\<close>.\<close>

definition printf_377 :: pystr where
  "printf_377 = lit ''printf '' @ [39, 92] @ lit ''377'' @ [39]"

definition script_popen ::
  "nat \<times> nat \<Rightarrow> pystr \<Rightarrow> environ \<Rightarrow> (pyexn + exited) \<times> (nat \<times> nat)" where
  "script_popen w cmd env =
     (if cmd = lit ''echo hi'' then
        Inr \<lparr>exit_status = 0, out_bytes = ''hi'' @ [CHR 0x0A], err_bytes = []\<rparr>
      else if cmd = lit ''false'' then
        Inr \<lparr>exit_status = 1, out_bytes = [], err_bytes = []\<rparr>
      else if cmd = lit ''ls /nope'' then
        Inr \<lparr>exit_status = 2, out_bytes = [],
             err_bytes = ''ls: cannot access /nope'' @ [CHR 0x0A]\<rparr>
      else if cmd = printf_377 then
        Inr \<lparr>exit_status = 0, out_bytes = [CHR 0xFF], err_bytes = []\<rparr>
      else if cmd = printf_377 @ lit ''; exit 3'' then
        Inr \<lparr>exit_status = 3, out_bytes = [CHR 0xFF], err_bytes = []\<rparr>
      else if cmd = lit ''boom'' then
        Inl (PyExn ''MemoryError'' [])
      else
        Inl (PyExn ''FileNotFoundError'' (lit ''[Errno 2] No such file or directory'')),
      (fst w, Suc (snd w)))"

definition script_shell :: "(nat \<times> nat) shell" where
  "script_shell = \<lparr>popen = script_popen, decode_text = utf8_decode\<rparr>"

definition replay_provider :: "response list \<Rightarrow> (nat \<times> nat) provider" where
  "replay_provider rs w msgs =
     (if fst w < length rs then Inr (rs ! fst w)
      else Inl (PyExn ''APIConnectionError'' (lit ''Connection error.'')),
      (Suc (fst w), snd w))"

text \<open>A bash tool call, three kinds of response, and the session at its first turn.\<close>

definition bash_call :: "pystr \<Rightarrow> pystr \<Rightarrow> block" where
  "bash_call tid cmd = ToolUseBlock tid (lit ''bash'') \<lparr>command = Some cmd, restart = None\<rparr>"

definition tool_use_response :: "block list \<Rightarrow> response" where
  "tool_use_response blocks =
     \<lparr>stop_reason = lit ''tool_use'', resp_content = blocks,
      input_tokens = 10, output_tokens = 5\<rparr>"

definition end_turn_response :: "block list \<Rightarrow> response" where
  "end_turn_response blocks =
     \<lparr>stop_reason = lit ''end_turn'', resp_content = blocks,
      input_tokens = 20, output_tokens = 7\<rparr>"

definition max_tokens_response :: "block list \<Rightarrow> response" where
  "max_tokens_response blocks =
     \<lparr>stop_reason = lit ''max_tokens'', resp_content = blocks,
      input_tokens = 20, output_tokens = 4096\<rparr>"

definition first_turn :: "bool \<Rightarrow> pystr \<Rightarrow> (nat \<times> nat) bash_session" where
  "first_turn dry prompt = snd (process_prelude prompt [] (init_session dry Map.empty (0, 0)))"

section \<open>The executor, path by path\<close>

lemma logger_log_Some:
  "session_logger s = Some sl \<Longrightarrow>
   logger_log lvl m s =
     (Inr (), s\<lparr>session_logger := Some (sl\<lparr>records := records sl @ [(lvl, bash_prefix, m)]\<rparr>)\<rparr>)"
  by (simp add: logger_log_def)

lemma logger_log_None:
  "session_logger s = None \<Longrightarrow> logger_log lvl m s = (Inl (none_has_no_attribute lvl), s)"
  by (simp add: logger_log_def)

lemma body_restart:
  assumes "session_logger s = Some sl" "restart tc = Some True"
  shows "handle_bash_command_body sh os_environ tc s =
     (Inr [''content'' \<mapsto> lit ''Bash session restarted.''],
      s\<lparr>environment := os_environ,
        session_logger := Some (sl\<lparr>records := records sl @ [(INFO, bash_prefix, Restarted)]\<rparr>)\<rparr>)"
  using assms
  by (simp add: handle_bash_command_body_def and_then_def ret_def modify_def logger_log_def Let_def)

lemma body_no_command:
  assumes "session_logger s = Some sl" "restart tc \<noteq> Some True"
    "command tc = None \<or> command tc = Some []"
  shows "handle_bash_command_body sh os_environ tc s =
     (Inr [''error'' \<mapsto> lit ''No command provided to execute.''],
      s\<lparr>session_logger := Some (sl\<lparr>records := records sl @ [(ERROR, bash_prefix, NoCommand)]\<rparr>)\<rparr>)"
  using assms
  by (cases "restart tc")
     (auto simp: handle_bash_command_body_def and_then_def ret_def logger_log_def Let_def)

lemma body_dry_run:
  assumes "session_logger s = Some sl" "restart tc \<noteq> Some True"
    "command tc = Some c" "c \<noteq> []" "no_agi s"
  shows "handle_bash_command_body sh os_environ tc s =
     (Inr [''content'' \<mapsto> dry_run_marker @ lit '' Would execute command: '' @ c],
      s\<lparr>session_logger :=
           Some (sl\<lparr>records := records sl @ [(INFO, bash_prefix, MockExecuting c)]\<rparr>)\<rparr>)"
  using assms
  by (cases "restart tc")
     (auto simp: handle_bash_command_body_def and_then_def ret_def logger_log_def Let_def)

lemma body_spawn_raises:
  assumes "session_logger s = Some sl" "restart tc \<noteq> Some True"
    "command tc = Some c" "c \<noteq> []" "\<not> no_agi s"
    "subprocess_run sh (world s) c (environment s) = (Inl e, w')"
  shows "handle_bash_command_body sh os_environ tc s =
     (Inl e,
      s\<lparr>session_logger :=
           Some (sl\<lparr>records := records sl @ [(INFO, bash_prefix, Executing c)]\<rparr>),
        world := w'\<rparr>)"
  using assms
  by (cases "restart tc")
     (auto simp: handle_bash_command_body_def and_then_def ret_def logger_log_def
        call_subprocess_run_def Let_def)

lemma body_completed:
  assumes "session_logger s = Some sl" "restart tc \<noteq> Some True"
    "command tc = Some c" "c \<noteq> []" "\<not> no_agi s"
    "subprocess_run sh (world s) c (environment s) = (Inr res, w')"
  shows "\<exists>s'. handle_bash_command_body sh os_environ tc s =
     (Inr (if returncode res \<noteq> 0 then
            [''error'' \<mapsto> (if strip (stderr res) \<noteq> [] then strip (stderr res)
                              else lit ''Command execution failed.'')]
          else [''content'' \<mapsto> strip (stdout res)]), s') \<and>
      session_logger s' \<noteq> None \<and> world s' = w' \<and> environment s' = environment s"
  using assms
  by (cases "restart tc")
     (auto simp: handle_bash_command_body_def and_then_def ret_def logger_log_def
        call_subprocess_run_def Let_def)

lemma handler_returns:
  assumes "session_logger s = Some sl"
  shows "and_then (logger_log ERROR (HandlerError (exn_str e))) (\<lambda>_.
         and_then (logger_log ERROR (Traceback e)) (\<lambda>_.
         ret [''error'' \<mapsto> exn_str e])) s =
     (Inr [''error'' \<mapsto> exn_str e],
      s\<lparr>session_logger := Some (sl\<lparr>records := records sl @
           [(ERROR, bash_prefix, HandlerError (exn_str e)), (ERROR, bash_prefix, Traceback e)]\<rparr>)\<rparr>)"
  using assms by (simp add: and_then_def ret_def logger_log_def Let_def)

lemma body_keeps_logger:
  assumes "session_logger s = Some sl"
  shows "session_logger (snd (handle_bash_command_body sh os_environ tc s)) \<noteq> None"
  using assms
  by (auto simp: handle_bash_command_body_def and_then_def ret_def logger_log_def modify_def
        call_subprocess_run_def Let_def split: prod.splits sum.splits option.splits)

lemma handle_restart:
  assumes "session_logger s = Some sl" "restart tc = Some True"
  shows "handle_bash_command sh os_environ tc s =
     (Inr [''content'' \<mapsto> lit ''Bash session restarted.''],
      s\<lparr>environment := os_environ,
        session_logger := Some (sl\<lparr>records := records sl @ [(INFO, bash_prefix, Restarted)]\<rparr>)\<rparr>)"
  by (simp add: handle_bash_command_def try_except_def body_restart[OF assms])

lemma handle_no_command:
  assumes "session_logger s = Some sl" "restart tc \<noteq> Some True"
    "command tc = None \<or> command tc = Some []"
  shows "handle_bash_command sh os_environ tc s =
     (Inr [''error'' \<mapsto> lit ''No command provided to execute.''],
      s\<lparr>session_logger := Some (sl\<lparr>records := records sl @ [(ERROR, bash_prefix, NoCommand)]\<rparr>)\<rparr>)"
  by (simp add: handle_bash_command_def try_except_def body_no_command[OF assms])

lemma handle_dry_run:
  assumes "session_logger s = Some sl" "restart tc \<noteq> Some True"
    "command tc = Some c" "c \<noteq> []" "no_agi s"
  shows "handle_bash_command sh os_environ tc s =
     (Inr [''content'' \<mapsto> dry_run_marker @ lit '' Would execute command: '' @ c],
      s\<lparr>session_logger :=
           Some (sl\<lparr>records := records sl @ [(INFO, bash_prefix, MockExecuting c)]\<rparr>)\<rparr>)"
  by (simp add: handle_bash_command_def try_except_def body_dry_run[OF assms])

lemma handle_completed:
  assumes "session_logger s = Some sl" "restart tc \<noteq> Some True"
    "command tc = Some c" "c \<noteq> []" "\<not> no_agi s"
    "subprocess_run sh (world s) c (environment s) = (Inr res, w')"
  shows "\<exists>s'. handle_bash_command sh os_environ tc s =
     (Inr (if returncode res \<noteq> 0 then
            [''error'' \<mapsto> (if strip (stderr res) \<noteq> [] then strip (stderr res)
                              else lit ''Command execution failed.'')]
          else [''content'' \<mapsto> strip (stdout res)]), s') \<and>
      session_logger s' \<noteq> None \<and> world s' = w' \<and> environment s' = environment s"
proof -
  have "\<exists>s'. handle_bash_command_body sh os_environ tc s =
     (Inr (if returncode res \<noteq> 0 then
            [''error'' \<mapsto> (if strip (stderr res) \<noteq> [] then strip (stderr res)
                              else lit ''Command execution failed.'')]
          else [''content'' \<mapsto> strip (stdout res)]), s') \<and>
      session_logger s' \<noteq> None \<and> world s' = w' \<and> environment s' = environment s"
    using assms by (rule body_completed)
  then obtain s' where
    b: "handle_bash_command_body sh os_environ tc s =
     (Inr (if returncode res \<noteq> 0 then
            [''error'' \<mapsto> (if strip (stderr res) \<noteq> [] then strip (stderr res)
                              else lit ''Command execution failed.'')]
          else [''content'' \<mapsto> strip (stdout res)]), s')"
    and r: "session_logger s' \<noteq> None" "world s' = w'" "environment s' = environment s"
    by blast
  show ?thesis
    using r by (simp only: handle_bash_command_def try_except_def b) simp
qed

lemma handle_catches:
  assumes "session_logger s = Some sl"
    "handle_bash_command_body sh os_environ tc s = (Inl e, s1)"
  shows "\<exists>s'. handle_bash_command sh os_environ tc s = (Inr [''error'' \<mapsto> exn_str e], s')"
proof -
  from body_keeps_logger[OF assms(1), of sh os_environ tc] assms(2)
  obtain sl1 where "session_logger s1 = Some sl1" by auto
  from handler_returns[OF this, of e] show ?thesis
    by (simp add: handle_bash_command_def try_except_def assms(2))
qed

lemma handle_returns:
  assumes "session_logger s = Some sl"
  shows "\<exists>r s'. handle_bash_command sh os_environ tc s = (Inr r, s')"
proof (cases "handle_bash_command_body sh os_environ tc s")
  case (Pair x s1)
  show ?thesis
  proof (cases x)
    case (Inl e)
    with Pair handle_catches[OF assms] show ?thesis by blast
  next
    case (Inr r)
    with Pair show ?thesis by (simp add: handle_bash_command_def try_except_def)
  qed
qed

lemma process_tool_call_bash:
  assumes "session_logger s = Some sl"
  shows "process_tool_call sh os_environ (ToolUseBlock tid (lit ''bash'') inp) results s =
     (case handle_bash_command sh os_environ inp
             (s\<lparr>session_logger := Some (sl\<lparr>records := records sl @
                   [(INFO, bash_prefix, BashToolCallInput inp)]\<rparr>),
                current_tool_calls := current_tool_calls s @
                   [(case command inp of None \<Rightarrow> [] | Some c \<Rightarrow> c, tid)]\<rparr>) of
        (Inl e, s') \<Rightarrow> (Inl e, s')
      | (Inr r, s') \<Rightarrow>
          (Inr (results @ [\<lparr>tool_call_id = tid, call_output = tool_result_envelope tid r\<rparr>]), s'))"
  using assms
  by (simp add: process_tool_call_def and_then_def logger_log_def modify_def ret_def
        split: prod.splits sum.splits)


lemma envelope_content:
  "tool_result_envelope tid [''content'' \<mapsto> x] =
     \<lparr>env_content = [TextParam x], tool_use_id = tid, is_error = False\<rparr>"
  by (simp add: tool_result_envelope_def)

lemma envelope_error:
  "x \<noteq> [] \<Longrightarrow> tool_result_envelope tid [''error'' \<mapsto> x] =
     \<lparr>env_content = [TextParam x], tool_use_id = tid, is_error = True\<rparr>"
  by (simp add: tool_result_envelope_def)

lemma lit_nonempty: "s \<noteq> [] \<Longrightarrow> lit s \<noteq> []"
  by (simp add: lit_def)

text \<open>The definitions that a concrete run unfolds.\<close>

lemmas run_defs =
  loop_round_def receive_response_def messages_create_def and_then_def ret_def raise_def
  modify_def try_except_def logger_log_def session_update_token_usage_def
  session_log_total_cost_def log_total_cost_def
  update_token_usage_def append_message_def process_tool_calls_def process_tool_call_def
  tool_result_envelope_def handle_bash_command_def handle_bash_command_body_def
  call_subprocess_run_def subprocess_run_def translate_newlines_def script_popen_def
  utf8_decode_def emit_def is_continuation_def decode_error_def hex2_def printf_377_def
  process_prelude_def api_messages_of_def process_handler_def
  init_session_def set_logger_def new_bash_session_def new_session_logger_def
  script_shell_def replay_provider_def bash_call_def tool_use_response_def
  end_turn_response_def first_turn_def strip_def lstrip_def rstrip_def isspace_def
  lit_def Let_def

section \<open>The executor on a process that was run\<close>

text \<open>
  \<open>subprocess.run\<close> returns exactly when the process could be started and both of its
  outputs decode.
\<close>

lemma subprocess_run_completed:
  assumes "popen sh w c env = (Inr p, w')"
    "decode_text sh (out_bytes p) = Inr out" "decode_text sh (err_bytes p) = Inr err"
  shows "subprocess_run sh w c env =
     (Inr \<lparr>returncode = exit_status p, stdout = translate_newlines out,
           stderr = translate_newlines err\<rparr>, w')"
  using assms by (simp add: subprocess_run_def)

lemma subprocess_run_undecodable:
  assumes "popen sh w c env = (Inr p, w')" "decode_text sh (out_bytes p) = Inl e"
  shows "subprocess_run sh w c env = (Inl e, w')"
  using assms by (simp add: subprocess_run_def)

text \<open>What the executor and the router give once \<open>subprocess.run\<close> has returned \<open>res\<close>.\<close>

lemma returned_zero_content:
  assumes "session_logger s = Some sl" "restart tc \<noteq> Some True"
    "command tc = Some c" "c \<noteq> []" "\<not> no_agi s"
    "subprocess_run sh (world s) c (environment s) = (Inr res, w')" "returncode res = 0"
  shows "fst (handle_bash_command sh os_environ tc s) = Inr [''content'' \<mapsto> strip (stdout res)] \<and>
     tool_result_envelope tid [''content'' \<mapsto> strip (stdout res)] =
       \<lparr>env_content = [TextParam (strip (stdout res))], tool_use_id = tid, is_error = False\<rparr> \<and>
     fst (process_tool_call sh os_environ (ToolUseBlock tid (lit ''bash'') tc) results s) =
       Inr (results @ [\<lparr>tool_call_id = tid, call_output =
         \<lparr>env_content = [TextParam (strip (stdout res))], tool_use_id = tid, is_error = False\<rparr>\<rparr>])"
proof -
  define s1 where "s1 = s\<lparr>session_logger := Some (sl\<lparr>records := records sl @
                   [(INFO, bash_prefix, BashToolCallInput tc)]\<rparr>),
                current_tool_calls := current_tool_calls s @
                   [(case command tc of None \<Rightarrow> [] | Some c \<Rightarrow> c, tid)]\<rparr>"
  have "\<exists>s'. handle_bash_command sh os_environ tc s =
     (Inr (if returncode res \<noteq> 0 then
            [''error'' \<mapsto> (if strip (stderr res) \<noteq> [] then strip (stderr res)
                              else lit ''Command execution failed.'')]
          else [''content'' \<mapsto> strip (stdout res)]), s') \<and>
      session_logger s' \<noteq> None \<and> world s' = w' \<and> environment s' = environment s"
    using assms(1-6) by (rule handle_completed)
  then have a: "fst (handle_bash_command sh os_environ tc s) = Inr [''content'' \<mapsto> strip (stdout res)]"
    using assms(7) by auto
  have l1: "session_logger s1 = Some (sl\<lparr>records := records sl @
                   [(INFO, bash_prefix, BashToolCallInput tc)]\<rparr>)"
    and n1: "\<not> no_agi s1"
    and w1: "subprocess_run sh (world s1) c (environment s1) = (Inr res, w')"
    using assms by (simp_all add: s1_def)
  have "\<exists>s'. handle_bash_command sh os_environ tc s1 =
     (Inr (if returncode res \<noteq> 0 then
            [''error'' \<mapsto> (if strip (stderr res) \<noteq> [] then strip (stderr res)
                              else lit ''Command execution failed.'')]
          else [''content'' \<mapsto> strip (stdout res)]), s') \<and>
      session_logger s' \<noteq> None \<and> world s' = w' \<and> environment s' = environment s1"
    using l1 assms(2-4) n1 w1 by (rule handle_completed)
  then obtain s' where
    "handle_bash_command sh os_environ tc s1 = (Inr [''content'' \<mapsto> strip (stdout res)], s')"
    using assms(7) by auto
  then have c: "fst (process_tool_call sh os_environ (ToolUseBlock tid (lit ''bash'') tc) results s) =
       Inr (results @ [\<lparr>tool_call_id = tid, call_output =
         \<lparr>env_content = [TextParam (strip (stdout res))], tool_use_id = tid, is_error = False\<rparr>\<rparr>])"
    unfolding process_tool_call_bash[OF assms(1)] s1_def[symmetric]
    by (simp add: envelope_content)
  from a c show ?thesis by (simp add: envelope_content)
qed

lemma returned_nonzero_error:
  assumes "session_logger s = Some sl" "restart tc \<noteq> Some True"
    "command tc = Some c" "c \<noteq> []" "\<not> no_agi s"
    "subprocess_run sh (world s) c (environment s) = (Inr res, w')" "returncode res \<noteq> 0"
  shows "fst (handle_bash_command sh os_environ tc s) =
       Inr [''error'' \<mapsto> (if strip (stderr res) \<noteq> [] then strip (stderr res)
                            else lit ''Command execution failed.'')] \<and>
     fst (process_tool_call sh os_environ (ToolUseBlock tid (lit ''bash'') tc) results s) =
       Inr (results @ [\<lparr>tool_call_id = tid, call_output =
         \<lparr>env_content = [TextParam (if strip (stderr res) \<noteq> [] then strip (stderr res)
                                     else lit ''Command execution failed.'')],
          tool_use_id = tid, is_error = True\<rparr>\<rparr>])"
proof -
  define msg where "msg = (if strip (stderr res) \<noteq> [] then strip (stderr res)
                            else lit ''Command execution failed.'')"
  have ne: "msg \<noteq> []" by (simp add: msg_def lit_def)
  define s1 where "s1 = s\<lparr>session_logger := Some (sl\<lparr>records := records sl @
                   [(INFO, bash_prefix, BashToolCallInput tc)]\<rparr>),
                current_tool_calls := current_tool_calls s @
                   [(case command tc of None \<Rightarrow> [] | Some c \<Rightarrow> c, tid)]\<rparr>"
  have "\<exists>s'. handle_bash_command sh os_environ tc s =
     (Inr (if returncode res \<noteq> 0 then
            [''error'' \<mapsto> (if strip (stderr res) \<noteq> [] then strip (stderr res)
                              else lit ''Command execution failed.'')]
          else [''content'' \<mapsto> strip (stdout res)]), s') \<and>
      session_logger s' \<noteq> None \<and> world s' = w' \<and> environment s' = environment s"
    using assms(1-6) by (rule handle_completed)
  then have a: "fst (handle_bash_command sh os_environ tc s) = Inr [''error'' \<mapsto> msg]"
    using assms(7) by (auto simp: msg_def)
  have l1: "session_logger s1 = Some (sl\<lparr>records := records sl @
                   [(INFO, bash_prefix, BashToolCallInput tc)]\<rparr>)"
    and n1: "\<not> no_agi s1"
    and w1: "subprocess_run sh (world s1) c (environment s1) = (Inr res, w')"
    using assms by (simp_all add: s1_def)
  have "\<exists>s'. handle_bash_command sh os_environ tc s1 =
     (Inr (if returncode res \<noteq> 0 then
            [''error'' \<mapsto> (if strip (stderr res) \<noteq> [] then strip (stderr res)
                              else lit ''Command execution failed.'')]
          else [''content'' \<mapsto> strip (stdout res)]), s') \<and>
      session_logger s' \<noteq> None \<and> world s' = w' \<and> environment s' = environment s1"
    using l1 assms(2-4) n1 w1 by (rule handle_completed)
  then obtain s' where
    "handle_bash_command sh os_environ tc s1 = (Inr [''error'' \<mapsto> msg], s')"
    using assms(7) by (auto simp: msg_def)
  then have c: "fst (process_tool_call sh os_environ (ToolUseBlock tid (lit ''bash'') tc) results s) =
       Inr (results @ [\<lparr>tool_call_id = tid, call_output =
         \<lparr>env_content = [TextParam msg], tool_use_id = tid, is_error = True\<rparr>\<rparr>])"
    unfolding process_tool_call_bash[OF assms(1)] s1_def[symmetric]
    by (simp add: envelope_error[OF ne])
  from a c show ?thesis unfolding msg_def by simp
qed

section \<open>The claims about the executor\<close>

text \<open>
  C1, as stated, fails at a process that exits with status 0 after writing a byte that
  is no text in the encoding of the locale (\<open>printf '\377'\<close> under UTF-8): decoding the
  output raises \<open>UnicodeDecodeError\<close> inside \<open>subprocess.run\<close>, the handler of the executor
  turns it into an error result, and the envelope has \<open>is_error = True\<close>.
\<close>

theorem exit_zero_undecodable_counterexample:
  "popen script_shell (0, 0) printf_377 Map.empty =
     (Inr \<lparr>exit_status = 0, out_bytes = [CHR 0xFF], err_bytes = []\<rparr>, (0, 1)) \<and>
   fst (handle_bash_command script_shell Map.empty
          \<lparr>command = Some printf_377, restart = None\<rparr>
          (init_session False Map.empty (0, 0))) =
     Inr [''error'' \<mapsto> 39 # lit ''utf-8'' @ 39 # lit '' codec can'' @ 39 #
            lit ''t decode byte 0xff in position 0: invalid start byte''] \<and>
   fst (process_tool_call script_shell Map.empty
          (ToolUseBlock (lit ''tu_1'') (lit ''bash'')
             \<lparr>command = Some printf_377, restart = None\<rparr>) []
          (init_session False Map.empty (0, 0))) =
     Inr [\<lparr>tool_call_id = lit ''tu_1'', call_output =
         \<lparr>env_content = [TextParam (39 # lit ''utf-8'' @ 39 # lit '' codec can'' @ 39 #
            lit ''t decode byte 0xff in position 0: invalid start byte'')],
          tool_use_id = lit ''tu_1'', is_error = True\<rparr>\<rparr>]"
  by (simp add: run_defs)

text \<open>
  C1, amended: a command that is run (no restart, no dry run, a non-empty command), whose
  process exits with status 0 and whose two outputs decode as text, gives the result
  \<open>content\<close> holding the captured standard output stripped, which may be empty; the
  envelope made from it, also the one the router appends, has \<open>is_error = False\<close>.
\<close>

theorem exit_zero_content:
  assumes "session_logger s = Some sl" "restart tc \<noteq> Some True"
    "command tc = Some c" "c \<noteq> []" "\<not> no_agi s"
    "popen sh (world s) c (environment s) = (Inr p, w')" "exit_status p = 0"
    "decode_text sh (out_bytes p) = Inr out" "decode_text sh (err_bytes p) = Inr err"
  shows "fst (handle_bash_command sh os_environ tc s) =
       Inr [''content'' \<mapsto> strip (translate_newlines out)] \<and>
     tool_result_envelope tid [''content'' \<mapsto> strip (translate_newlines out)] =
       \<lparr>env_content = [TextParam (strip (translate_newlines out))], tool_use_id = tid,
        is_error = False\<rparr> \<and>
     fst (process_tool_call sh os_environ (ToolUseBlock tid (lit ''bash'') tc) results s) =
       Inr (results @ [\<lparr>tool_call_id = tid, call_output =
         \<lparr>env_content = [TextParam (strip (translate_newlines out))], tool_use_id = tid,
          is_error = False\<rparr>\<rparr>])"
proof -
  let ?res = "\<lparr>returncode = exit_status p, stdout = translate_newlines out,
           stderr = translate_newlines err\<rparr>"
  have r: "subprocess_run sh (world s) c (environment s) = (Inr ?res, w')"
    using assms(6,8,9) by (rule subprocess_run_completed)
  have z: "returncode ?res = 0"
    using assms(7) by simp
  from returned_zero_content[OF assms(1-5) r z, of os_environ tid results]
  show ?thesis by simp
qed

theorem exit_zero_content_witness:
  "fst (handle_bash_command script_shell Map.empty
          \<lparr>command = Some (lit ''echo hi''), restart = None\<rparr>
          (init_session False Map.empty (0, 0))) = Inr [''content'' \<mapsto> lit ''hi''] \<and>
   fst (process_tool_call script_shell Map.empty
          (ToolUseBlock (lit ''tu_1'') (lit ''bash'')
             \<lparr>command = Some (lit ''echo hi''), restart = None\<rparr>) []
          (init_session False Map.empty (0, 0))) =
     Inr [\<lparr>tool_call_id = lit ''tu_1'', call_output =
         \<lparr>env_content = [TextParam (lit ''hi'')], tool_use_id = lit ''tu_1'',
          is_error = False\<rparr>\<rparr>]"
  using exit_zero_content [where s = "init_session False Map.empty (0, 0)"
      and sl = new_session_logger
      and tc = "\<lparr>command = Some (lit ''echo hi''), restart = None\<rparr>"
      and c = "lit ''echo hi''" and sh = script_shell
      and p = "\<lparr>exit_status = 0, out_bytes = ''hi'' @ [CHR 0x0A], err_bytes = []\<rparr>"
      and w' = "(0, 1)" and out = "lit ''hi'' @ [10]" and err = "[]"
      and os_environ = Map.empty and tid = "lit ''tu_1''" and results = "[]"]
  by (simp add: init_session_def set_logger_def new_bash_session_def script_shell_def
        script_popen_def utf8_decode_def emit_def translate_newlines_def
        lit_def strip_def lstrip_def rstrip_def isspace_def)

text \<open>
  C2, as stated, fails at a process that exits with status 3 after writing the byte
  \<open>0xff\<close> to its standard output and nothing to its standard error: the stripped standard
  error is empty, yet the text of the error is that of the \<open>UnicodeDecodeError\<close>, not the
  fixed message.
\<close>

theorem nonzero_exit_undecodable_counterexample:
  "popen script_shell (0, 0) (printf_377 @ lit ''; exit 3'') Map.empty =
     (Inr \<lparr>exit_status = 3, out_bytes = [CHR 0xFF], err_bytes = []\<rparr>, (0, 1)) \<and>
   decode_text script_shell [] = Inr [] \<and>
   fst (handle_bash_command script_shell Map.empty
          \<lparr>command = Some (printf_377 @ lit ''; exit 3''), restart = None\<rparr>
          (init_session False Map.empty (0, 0))) =
     Inr [''error'' \<mapsto> 39 # lit ''utf-8'' @ 39 # lit '' codec can'' @ 39 #
            lit ''t decode byte 0xff in position 0: invalid start byte''] \<and>
   (39 # lit ''utf-8'' @ 39 # lit '' codec can'' @ 39 #
            lit ''t decode byte 0xff in position 0: invalid start byte'') \<noteq>
     lit ''Command execution failed.''"
  by (simp add: run_defs)

text \<open>
  C2, amended: a command that is run, whose process exits with a status other than 0 and
  whose two outputs decode as text, gives the result \<open>error\<close> holding the captured standard
  error stripped, or the text \<open>Command execution failed.\<close> when that is empty; the
  envelope the router appends has \<open>is_error = True\<close>.
\<close>

theorem nonzero_exit_error:
  assumes "session_logger s = Some sl" "restart tc \<noteq> Some True"
    "command tc = Some c" "c \<noteq> []" "\<not> no_agi s"
    "popen sh (world s) c (environment s) = (Inr p, w')" "exit_status p \<noteq> 0"
    "decode_text sh (out_bytes p) = Inr out" "decode_text sh (err_bytes p) = Inr err"
  shows "fst (handle_bash_command sh os_environ tc s) =
       Inr [''error'' \<mapsto> (if strip (translate_newlines err) \<noteq> []
                            then strip (translate_newlines err)
                            else lit ''Command execution failed.'')] \<and>
     fst (process_tool_call sh os_environ (ToolUseBlock tid (lit ''bash'') tc) results s) =
       Inr (results @ [\<lparr>tool_call_id = tid, call_output =
         \<lparr>env_content = [TextParam (if strip (translate_newlines err) \<noteq> []
                                     then strip (translate_newlines err)
                                     else lit ''Command execution failed.'')],
          tool_use_id = tid, is_error = True\<rparr>\<rparr>])"
proof -
  let ?res = "\<lparr>returncode = exit_status p, stdout = translate_newlines out,
           stderr = translate_newlines err\<rparr>"
  have r: "subprocess_run sh (world s) c (environment s) = (Inr ?res, w')"
    using assms(6,8,9) by (rule subprocess_run_completed)
  have z: "returncode ?res \<noteq> 0"
    using assms(7) by simp
  from returned_nonzero_error[OF assms(1-5) r z, of os_environ tid results]
  show ?thesis by simp
qed

theorem nonzero_exit_error_witness:
  "fst (handle_bash_command script_shell Map.empty
          \<lparr>command = Some (lit ''ls /nope''), restart = Some False\<rparr>
          (init_session False Map.empty (0, 0))) =
     Inr [''error'' \<mapsto> lit ''ls: cannot access /nope''] \<and>
   fst (process_tool_call script_shell Map.empty
          (ToolUseBlock (lit ''tu_1'') (lit ''bash'')
             \<lparr>command = Some (lit ''ls /nope''), restart = Some False\<rparr>) []
          (init_session False Map.empty (0, 0))) =
     Inr [\<lparr>tool_call_id = lit ''tu_1'', call_output =
         \<lparr>env_content = [TextParam (lit ''ls: cannot access /nope'')],
          tool_use_id = lit ''tu_1'', is_error = True\<rparr>\<rparr>] \<and>
   fst (handle_bash_command script_shell Map.empty
          \<lparr>command = Some (lit ''false''), restart = None\<rparr>
          (init_session False Map.empty (0, 0))) =
     Inr [''error'' \<mapsto> lit ''Command execution failed.''] \<and>
   fst (process_tool_call script_shell Map.empty
          (ToolUseBlock (lit ''tu_2'') (lit ''bash'')
             \<lparr>command = Some (lit ''false''), restart = None\<rparr>) []
          (init_session False Map.empty (0, 0))) =
     Inr [\<lparr>tool_call_id = lit ''tu_2'', call_output =
         \<lparr>env_content = [TextParam (lit ''Command execution failed.'')],
          tool_use_id = lit ''tu_2'', is_error = True\<rparr>\<rparr>]"
  using nonzero_exit_error [where s = "init_session False Map.empty (0, 0)"
      and sl = new_session_logger
      and tc = "\<lparr>command = Some (lit ''ls /nope''), restart = Some False\<rparr>"
      and c = "lit ''ls /nope''" and sh = script_shell
      and p = "\<lparr>exit_status = 2, out_bytes = [],
                err_bytes = ''ls: cannot access /nope'' @ [CHR 0x0A]\<rparr>"
      and w' = "(0, 1)" and out = "[]" and err = "lit ''ls: cannot access /nope'' @ [10]"
      and os_environ = Map.empty and tid = "lit ''tu_1''" and results = "[]"]
    nonzero_exit_error [where s = "init_session False Map.empty (0, 0)"
      and sl = new_session_logger
      and tc = "\<lparr>command = Some (lit ''false''), restart = None\<rparr>"
      and c = "lit ''false''" and sh = script_shell
      and p = "\<lparr>exit_status = 1, out_bytes = [], err_bytes = []\<rparr>"
      and w' = "(0, 1)" and out = "[]" and err = "[]"
      and os_environ = Map.empty and tid = "lit ''tu_2''" and results = "[]"]
  by (simp add: init_session_def set_logger_def new_bash_session_def script_shell_def
        script_popen_def utf8_decode_def emit_def translate_newlines_def
        lit_def strip_def lstrip_def rstrip_def isspace_def)

text \<open>
  C5: an invocation whose \<open>restart\<close> is true replaces the environment of the session by the
  ambient one, logs the restart and returns the fixed confirmation. Neither the command
  nor the shell occurs on the right-hand side: the command is not looked at, so an absent
  or empty command changes nothing, and the world is as it was.
\<close>

theorem restart_resets_environment:
  assumes "session_logger s = Some sl" "restart tc = Some True"
  shows "handle_bash_command sh os_environ tc s =
     (Inr [''content'' \<mapsto> lit ''Bash session restarted.''],
      s\<lparr>environment := os_environ,
        session_logger := Some (sl\<lparr>records := records sl @ [(INFO, bash_prefix, Restarted)]\<rparr>)\<rparr>)"
  using assms by (rule handle_restart)

theorem restart_resets_environment_witness:
  "handle_bash_command script_shell [lit ''HOME'' \<mapsto> lit ''/root'']
     \<lparr>command = Some (lit ''echo hi''), restart = Some True\<rparr>
     (init_session False [lit ''HOME'' \<mapsto> lit ''/root'', lit ''X'' \<mapsto> lit ''1''] (0, 0)) =
   (Inr [''content'' \<mapsto> lit ''Bash session restarted.''],
    \<lparr>messages = [], current_tool_calls = [],
     environment = [lit ''HOME'' \<mapsto> lit ''/root''],
     session_logger = Some \<lparr>records = [(INFO, bash_prefix, Restarted)],
                            total_input_tokens = 0, total_output_tokens = 0\<rparr>,
     no_agi = False, printed = [], world = (0, 0)\<rparr>)"
  using restart_resets_environment [of
      "init_session False [lit ''HOME'' \<mapsto> lit ''/root'', lit ''X'' \<mapsto> lit ''1''] (0, 0)"
      new_session_logger "\<lparr>command = Some (lit ''echo hi''), restart = Some True\<rparr>"
      script_shell "[lit ''HOME'' \<mapsto> lit ''/root'']"]
  by (simp add: init_session_def set_logger_def new_bash_session_def new_session_logger_def)

text \<open>
  C6, as stated, fails at the empty command: the test for a missing command comes before
  the test for the dry run, so the result is the error about the missing command and
  has no \<open>content\<close>.
\<close>

theorem dry_run_empty_command_counterexample:
  "handle_bash_command script_shell Map.empty \<lparr>command = Some [], restart = None\<rparr>
     (init_session True Map.empty (0, 0)) =
   (Inr [''error'' \<mapsto> lit ''No command provided to execute.''],
    \<lparr>messages = [], current_tool_calls = [], environment = Map.empty,
     session_logger = Some \<lparr>records = [(ERROR, bash_prefix, NoCommand)],
                            total_input_tokens = 0, total_output_tokens = 0\<rparr>,
     no_agi = True, printed = [], world = (0, 0)\<rparr>) \<and>
   [''error'' \<mapsto> lit ''No command provided to execute.''] ''content'' = None"
  by (simp add: handle_bash_command_def handle_bash_command_body_def try_except_def
        and_then_def ret_def logger_log_def Let_def
        init_session_def set_logger_def new_bash_session_def new_session_logger_def)

text \<open>
  C6, amended: in dry-run mode an invocation without restart and with a non-empty command
  returns the content made of the dry-run marker, the words \<open>Would execute command:\<close> and
  the command; the session changes by one record of the log only, so the environment and
  the world are as they were, whatever the shell would do.
\<close>

theorem dry_run_describes_command:
  assumes "session_logger s = Some sl" "restart tc \<noteq> Some True"
    "command tc = Some c" "c \<noteq> []" "no_agi s"
  shows "handle_bash_command sh os_environ tc s =
     (Inr [''content'' \<mapsto> dry_run_marker @ lit '' Would execute command: '' @ c],
      s\<lparr>session_logger :=
           Some (sl\<lparr>records := records sl @ [(INFO, bash_prefix, MockExecuting c)]\<rparr>)\<rparr>) \<and>
     environment (snd (handle_bash_command sh os_environ tc s)) = environment s \<and>
     world (snd (handle_bash_command sh os_environ tc s)) = world s"
  by (simp add: handle_dry_run[OF assms])

theorem dry_run_describes_command_witness:
  "handle_bash_command script_shell Map.empty
     \<lparr>command = Some (lit ''rm -rf /tmp/x''), restart = None\<rparr>
     (init_session True [lit ''HOME'' \<mapsto> lit ''/root''] (0, 0)) =
   (Inr [''content'' \<mapsto> 128269 # lit '' Dry Run: Would execute command: rm -rf /tmp/x''],
    \<lparr>messages = [], current_tool_calls = [],
     environment = [lit ''HOME'' \<mapsto> lit ''/root''],
     session_logger = Some \<lparr>records = [(INFO, bash_prefix, MockExecuting (lit ''rm -rf /tmp/x''))],
                            total_input_tokens = 0, total_output_tokens = 0\<rparr>,
     no_agi = True, printed = [], world = (0, 0)\<rparr>)"
  using dry_run_describes_command [of
      "init_session True [lit ''HOME'' \<mapsto> lit ''/root''] (0, 0)"
      new_session_logger "\<lparr>command = Some (lit ''rm -rf /tmp/x''), restart = None\<rparr>"
      "lit ''rm -rf /tmp/x''" script_shell Map.empty]
  by (simp add: init_session_def set_logger_def new_bash_session_def new_session_logger_def
        dry_run_marker_def lit_def)

text \<open>
  C7: on a session whose logger is set, the executor always returns a result and never an
  exception; whenever the body of its \<open>try\<close> raised \<open>e\<close>, the result is the error holding
  \<open>str(e)\<close>.
\<close>

theorem executor_never_raises:
  assumes "session_logger s = Some sl"
  shows "\<exists>r s'. handle_bash_command sh os_environ tc s = (Inr r, s') \<and>
     (\<forall>e s1. handle_bash_command_body sh os_environ tc s = (Inl e, s1) \<longrightarrow>
        r = [''error'' \<mapsto> exn_str e])"
proof -
  from handle_returns[OF assms, of sh os_environ tc] obtain r s'
    where h: "handle_bash_command sh os_environ tc s = (Inr r, s')" by blast
  have "r = [''error'' \<mapsto> exn_str e]"
    if "handle_bash_command_body sh os_environ tc s = (Inl e, s1)" for e s1
    using handle_catches[OF assms that] h by auto
  with h show ?thesis by blast
qed

theorem executor_never_raises_witness:
  "handle_bash_command_body script_shell Map.empty
     \<lparr>command = Some (lit ''spawn''), restart = None\<rparr> (init_session False Map.empty (0, 0)) =
   (Inl (PyExn ''FileNotFoundError'' (lit ''[Errno 2] No such file or directory'')),
    \<lparr>messages = [], current_tool_calls = [], environment = Map.empty,
     session_logger = Some \<lparr>records = [(INFO, bash_prefix, Executing (lit ''spawn''))],
                            total_input_tokens = 0, total_output_tokens = 0\<rparr>,
     no_agi = False, printed = [], world = (0, 1)\<rparr>) \<and>
   fst (handle_bash_command script_shell Map.empty
     \<lparr>command = Some (lit ''spawn''), restart = None\<rparr> (init_session False Map.empty (0, 0))) =
   Inr [''error'' \<mapsto> lit ''[Errno 2] No such file or directory'']"
proof -
  let ?s = "init_session False Map.empty (0, 0) :: (nat \<times> nat) bash_session"
  let ?tc = "\<lparr>command = Some (lit ''spawn''), restart = None\<rparr>"
  have l: "session_logger ?s = Some new_session_logger"
    by (simp add: init_session_def set_logger_def)
  have b: "handle_bash_command_body script_shell Map.empty ?tc ?s =
   (Inl (PyExn ''FileNotFoundError'' (lit ''[Errno 2] No such file or directory'')),
    \<lparr>messages = [], current_tool_calls = [], environment = Map.empty,
     session_logger = Some \<lparr>records = [(INFO, bash_prefix, Executing (lit ''spawn''))],
                            total_input_tokens = 0, total_output_tokens = 0\<rparr>,
     no_agi = False, printed = [], world = (0, 1)\<rparr>)"
    by (simp add: run_defs)
  from executor_never_raises[OF l, of script_shell Map.empty ?tc] b
  show ?thesis by auto
qed

text \<open>
  While the logger is still \<open>None\<close> the handler of the executor raises itself; the router
  has then raised at its own first line of logging and has not called the executor.
\<close>

lemma executor_without_logger:
  assumes "session_logger s = None"
  shows "fst (handle_bash_command sh os_environ tc s) = Inl (none_has_no_attribute ERROR)"
  using assms
  by (auto simp: handle_bash_command_def handle_bash_command_body_def try_except_def
        and_then_def ret_def logger_log_def modify_def Let_def split: prod.splits sum.splits)

lemma router_without_logger:
  assumes "session_logger s = None"
  shows "process_tool_call sh os_environ (ToolUseBlock tid (lit ''bash'') inp) results s =
     (Inl (none_has_no_attribute INFO), s)"
  using assms by (simp add: process_tool_call_def and_then_def logger_log_def)

text \<open>
  C10: for a bash tool call the router appends the envelope of the executor's result \<open>r\<close>;
  its \<open>is_error\<close> holds exactly when \<open>r\<close> has an \<open>error\<close> that is not the empty text, and
  the result with the empty error gives the envelope without error whose text is empty.
\<close>

theorem envelope_error_flag:
  assumes "session_logger s = Some sl"
  shows "\<exists>r s'.
     handle_bash_command sh os_environ inp
       (s\<lparr>session_logger := Some (sl\<lparr>records := records sl @
             [(INFO, bash_prefix, BashToolCallInput inp)]\<rparr>),
          current_tool_calls := current_tool_calls s @
             [(case command inp of None \<Rightarrow> [] | Some c \<Rightarrow> c, tid)]\<rparr>) = (Inr r, s') \<and>
     process_tool_call sh os_environ (ToolUseBlock tid (lit ''bash'') inp) results s =
       (Inr (results @ [\<lparr>tool_call_id = tid, call_output = tool_result_envelope tid r\<rparr>]), s') \<and>
     is_error (tool_result_envelope tid r) = (\<exists>t. r ''error'' = Some t \<and> t \<noteq> []) \<and>
     (r = [''error'' \<mapsto> []] \<longrightarrow>
        tool_result_envelope tid r =
          \<lparr>env_content = [TextParam []], tool_use_id = tid, is_error = False\<rparr>)"
proof -
  define s1 where "s1 = s\<lparr>session_logger := Some (sl\<lparr>records := records sl @
             [(INFO, bash_prefix, BashToolCallInput inp)]\<rparr>),
          current_tool_calls := current_tool_calls s @
             [(case command inp of None \<Rightarrow> [] | Some c \<Rightarrow> c, tid)]\<rparr>"
  have "session_logger s1 = Some (sl\<lparr>records := records sl @
             [(INFO, bash_prefix, BashToolCallInput inp)]\<rparr>)"
    by (simp add: s1_def)
  from handle_returns[OF this, of sh os_environ inp] obtain r s'
    where h: "handle_bash_command sh os_environ inp s1 = (Inr r, s')" by blast
  have p: "process_tool_call sh os_environ (ToolUseBlock tid (lit ''bash'') inp) results s =
       (Inr (results @ [\<lparr>tool_call_id = tid, call_output = tool_result_envelope tid r\<rparr>]), s')"
    unfolding process_tool_call_bash[OF assms] s1_def[symmetric] by (simp add: h)
  have f: "is_error (tool_result_envelope tid r) = (\<exists>t. r ''error'' = Some t \<and> t \<noteq> [])"
    by (auto simp: tool_result_envelope_def)
  have e: "r = [''error'' \<mapsto> []] \<longrightarrow>
        tool_result_envelope tid r =
          \<lparr>env_content = [TextParam []], tool_use_id = tid, is_error = False\<rparr>"
    by (simp add: tool_result_envelope_def)
  from h p f e show ?thesis unfolding s1_def by blast
qed

theorem envelope_error_flag_witness:
  "process_tool_call script_shell Map.empty
     (ToolUseBlock (lit ''tu_1'') (lit ''bash'') \<lparr>command = Some (lit ''boom''), restart = None\<rparr>)
     [] (init_session False Map.empty (0, 0)) =
   (Inr [\<lparr>tool_call_id = lit ''tu_1'', call_output =
          \<lparr>env_content = [TextParam []], tool_use_id = lit ''tu_1'', is_error = False\<rparr>\<rparr>],
    \<lparr>messages = [], current_tool_calls = [(lit ''boom'', lit ''tu_1'')],
     environment = Map.empty,
     session_logger = Some \<lparr>records =
        [(INFO, bash_prefix, BashToolCallInput \<lparr>command = Some (lit ''boom''), restart = None\<rparr>),
         (INFO, bash_prefix, Executing (lit ''boom'')),
         (ERROR, bash_prefix, HandlerError []),
         (ERROR, bash_prefix, Traceback (PyExn ''MemoryError'' []))],
        total_input_tokens = 0, total_output_tokens = 0\<rparr>,
     no_agi = False, printed = [], world = (0, 1)\<rparr>)"
proof -
  let ?s = "init_session False Map.empty (0, 0) :: (nat \<times> nat) bash_session"
  let ?inp = "\<lparr>command = Some (lit ''boom''), restart = None\<rparr>"
  have l: "session_logger ?s = Some new_session_logger"
    by (simp add: init_session_def set_logger_def)
  have h: "handle_bash_command script_shell Map.empty ?inp
       (?s\<lparr>session_logger := Some (new_session_logger\<lparr>records := records new_session_logger @
             [(INFO, bash_prefix, BashToolCallInput ?inp)]\<rparr>),
          current_tool_calls := current_tool_calls ?s @
             [(case command ?inp of None \<Rightarrow> [] | Some c \<Rightarrow> c, lit ''tu_1'')]\<rparr>) =
     (Inr [''error'' \<mapsto> []],
      \<lparr>messages = [], current_tool_calls = [(lit ''boom'', lit ''tu_1'')],
     environment = Map.empty,
     session_logger = Some \<lparr>records =
        [(INFO, bash_prefix, BashToolCallInput \<lparr>command = Some (lit ''boom''), restart = None\<rparr>),
         (INFO, bash_prefix, Executing (lit ''boom'')),
         (ERROR, bash_prefix, HandlerError []),
         (ERROR, bash_prefix, Traceback (PyExn ''MemoryError'' []))],
        total_input_tokens = 0, total_output_tokens = 0\<rparr>,
     no_agi = False, printed = [], world = (0, 1)\<rparr>)"
    by (simp add: run_defs)
  from envelope_error_flag[OF l, of script_shell Map.empty ?inp "lit ''tu_1''" "[]"] h
  show ?thesis by auto
qed

section \<open>The usage counters\<close>

text \<open>
  C8: counting \<open>(a, b)\<close> and then \<open>(c, d)\<close> leaves the counters, the costs derived from
  them and the summary that is logged as counting \<open>(a + c, b + d)\<close> once does, from any
  state and for all integers.
\<close>

theorem ledger_additive:
  "update_token_usage c d (update_token_usage a b sl) = update_token_usage (a + c) (b + d) sl \<and>
   total_input_cost (update_token_usage c d (update_token_usage a b sl)) =
     total_input_cost (update_token_usage (a + c) (b + d) sl) \<and>
   total_output_cost (update_token_usage c d (update_token_usage a b sl)) =
     total_output_cost (update_token_usage (a + c) (b + d) sl) \<and>
   total_cost (update_token_usage c d (update_token_usage a b sl)) =
     total_cost (update_token_usage (a + c) (b + d) sl) \<and>
   log_total_cost (update_token_usage c d (update_token_usage a b sl)) =
     log_total_cost (update_token_usage (a + c) (b + d) sl) \<and>
   and_then (session_update_token_usage a b) (\<lambda>_. session_update_token_usage c d) s =
     session_update_token_usage (a + c) (b + d) s"
proof -
  have "update_token_usage c d (update_token_usage a b sl) = update_token_usage (a + c) (b + d) sl"
    by (simp add: update_token_usage_def add.assoc)
  moreover have "and_then (session_update_token_usage a b) (\<lambda>_. session_update_token_usage c d) s =
     session_update_token_usage (a + c) (b + d) s"
    by (simp add: and_then_def session_update_token_usage_def update_token_usage_def add.assoc
          split: option.splits)
  ultimately show ?thesis by simp
qed

section \<open>The agent loop, round by round\<close>

lemma receive_response_Some:
  assumes "session_logger s = Some sl" "llm (world s) (messages s) = (Inr resp, w')"
  shows "receive_response llm s =
     (Inr resp,
      s\<lparr>world := w',
        session_logger := Some
          ((update_token_usage (input_tokens resp) (output_tokens resp)
             (sl\<lparr>records := records sl @
                [(INFO, bash_prefix, ApiUsage (input_tokens resp) (output_tokens resp))]\<rparr>))
           \<lparr>records := records sl @
                [(INFO, bash_prefix, ApiUsage (input_tokens resp) (output_tokens resp)),
                 (INFO, bash_prefix, ApiResponse resp)]\<rparr>),
        messages := messages s @
          [\<lparr>role = lit ''assistant'', msg_content = map block_param (resp_content resp)\<rparr>]\<rparr>)"
  using assms
  by (simp add: receive_response_def messages_create_def and_then_def ret_def logger_log_def
        session_update_token_usage_def update_token_usage_def append_message_def modify_def)

lemma agent_loop_continue:
  assumes "loop_round llm sh os_environ s = (Inr None, s')"
  shows "agent_loop llm sh os_environ s = agent_loop llm sh os_environ s'"
  by (subst agent_loop.simps) (simp add: assms)

lemma agent_loop_break:
  assumes "loop_round llm sh os_environ s = (Inr (Some x), s')"
  shows "agent_loop llm sh os_environ s = Some (Inr x, s')"
  by (subst agent_loop.simps) (simp add: assms)

lemma agent_loop_raise:
  assumes "loop_round llm sh os_environ s = (Inl e, s')"
  shows "agent_loop llm sh os_environ s = Some (Inl e, s')"
  by (subst agent_loop.simps) (simp add: assms)

lemma agent_loop_rounds:
  assumes "rounds llm sh os_environ n s = Some s'"
  shows "agent_loop llm sh os_environ s = agent_loop llm sh os_environ s'"
  using assms
proof (induction n arbitrary: s)
  case 0
  then show ?case by simp
next
  case (Suc n)
  from Suc.prems obtain s1 where
    r: "loop_round llm sh os_environ s = (Inr None, s1)"
    and k: "rounds llm sh os_environ n s1 = Some s'"
    by (auto split: prod.splits sum.splits option.splits)
  from agent_loop_continue[OF r] Suc.IH[OF k] show ?case by simp
qed

lemma round_final_answer:
  assumes "session_logger s = Some sl" "llm (world s) (messages s) = (Inr resp, w')"
    "stop_reason resp \<noteq> lit ''tool_use''" "resp_content resp = TextBlock t # rest"
  shows "\<exists>s'. loop_round llm sh os_environ s = (Inr (Some FinalAnswer), s') \<and>
     printed s' = printed s @ [t] \<and> world s' = w' \<and>
     messages s' = messages s @
       [\<lparr>role = lit ''assistant'', msg_content = map block_param (resp_content resp)\<rparr>]"
  using assms receive_response_Some[of s sl llm resp w']
  by (simp add: loop_round_def and_then_def modify_def ret_def)

lemma round_aborted:
  assumes "receive_response llm s = (Inr resp, s1)" "stop_reason resp = lit ''tool_use''"
    "process_tool_calls sh os_environ (resp_content resp) s1 = (Inr (r # rs), s2)"
    "is_error (call_output r)" "session_logger s2 = Some sl2"
  shows "loop_round llm sh os_environ s =
     (Inr (Some Aborted),
      s2\<lparr>messages := messages s2 @
            [\<lparr>role = lit ''user'', msg_content = [ToolResultP (call_output r)]\<rparr>],
         session_logger := Some (sl2\<lparr>records := records sl2 @
            [(ERROR, bash_prefix, ErrorContent (env_content (call_output r)))]\<rparr>)\<rparr>)"
  using assms
  by (simp add: loop_round_def and_then_def append_message_def modify_def ret_def
        logger_log_def)

lemma process_bash_command_after_loop:
  assumes "process_prelude bash_prompt hist si = (Inr (), s0)"
    "agent_loop llm sh os_environ s0 = Some (Inr x, sf)" "session_logger sf = Some slf"
  shows "process_bash_command llm sh os_environ bash_prompt hist si =
     Some (Inr (), sf\<lparr>session_logger := Some (log_total_cost slf)\<rparr>)"
  using assms
  by (simp add: process_bash_command_def try_except_def session_log_total_cost_def)

text \<open>
  When the response is not a tool use and its first block is a text block, in any round
  of a run, the loop ends with the final answer: the text of that block is what has been
  printed last, the response is the last turn of the history, and the world is as the
  provider left it.
\<close>

lemma final_answer_first_text:
  assumes "rounds llm sh os_environ n s0 = Some s"
    "session_logger s = Some sl" "llm (world s) (messages s) = (Inr resp, w')"
    "stop_reason resp \<noteq> lit ''tool_use''" "resp_content resp = TextBlock t # rest"
  shows "\<exists>s'. agent_loop llm sh os_environ s0 = Some (Inr FinalAnswer, s') \<and>
     printed s' = printed s @ [t] \<and> world s' = w' \<and>
     messages s' = messages s @
       [\<lparr>role = lit ''assistant'', msg_content = map block_param (resp_content resp)\<rparr>]"
proof -
  have "\<exists>s'. loop_round llm sh os_environ s = (Inr (Some FinalAnswer), s') \<and>
     printed s' = printed s @ [t] \<and> world s' = w' \<and>
     messages s' = messages s @
       [\<lparr>role = lit ''assistant'', msg_content = map block_param (resp_content resp)\<rparr>]"
    using assms(2-5) by (rule round_final_answer)
  then obtain s' where r: "loop_round llm sh os_environ s = (Inr (Some FinalAnswer), s')"
    and p: "printed s' = printed s @ [t]" "world s' = w'"
     "messages s' = messages s @
       [\<lparr>role = lit ''assistant'', msg_content = map block_param (resp_content resp)\<rparr>]"
    by blast
  from agent_loop_rounds[OF assms(1)] agent_loop_break[OF r]
  have "agent_loop llm sh os_environ s0 = Some (Inr FinalAnswer, s')" by simp
  with p show ?thesis by blast
qed

lemma final_answer_first_text_run:
  "map_option fst (agent_loop
     (replay_provider [tool_use_response [bash_call (lit ''tu_1'') (lit ''echo hi'')],
                       end_turn_response [TextBlock (lit ''It printed hi.'')]])
     script_shell Map.empty (first_turn False (lit ''say hi''))) = Some (Inr FinalAnswer) \<and>
   map_option (printed \<circ> snd) (agent_loop
     (replay_provider [tool_use_response [bash_call (lit ''tu_1'') (lit ''echo hi'')],
                       end_turn_response [TextBlock (lit ''It printed hi.'')]])
     script_shell Map.empty (first_turn False (lit ''say hi''))) = Some [lit ''It printed hi.''] \<and>
   map_option (world \<circ> snd) (agent_loop
     (replay_provider [tool_use_response [bash_call (lit ''tu_1'') (lit ''echo hi'')],
                       end_turn_response [TextBlock (lit ''It printed hi.'')]])
     script_shell Map.empty (first_turn False (lit ''say hi''))) = Some (2, 1)"
proof -
  let ?P = "replay_provider [tool_use_response [bash_call (lit ''tu_1'') (lit ''echo hi'')],
                       end_turn_response [TextBlock (lit ''It printed hi.'')]]"
  let ?s0 = "first_turn False (lit ''say hi'')"
  define s1 where "s1 = snd (loop_round ?P script_shell Map.empty ?s0)"
  have "fst (loop_round ?P script_shell Map.empty ?s0) = Inr None"
    by (simp add: run_defs)
  then have "loop_round ?P script_shell Map.empty ?s0 = (Inr None, s1)"
    by (simp add: s1_def prod_eq_iff)
  then have n: "rounds ?P script_shell Map.empty (Suc 0) ?s0 = Some s1"
    by simp
  have l: "session_logger s1 = Some (the (session_logger s1))"
    by (simp add: s1_def run_defs)
  have c: "?P (world s1) (messages s1) =
      (Inr (end_turn_response [TextBlock (lit ''It printed hi.'')]), (2, 1))"
    by (simp add: s1_def run_defs)
  have t: "stop_reason (end_turn_response [TextBlock (lit ''It printed hi.'')]) \<noteq> lit ''tool_use''"
    "resp_content (end_turn_response [TextBlock (lit ''It printed hi.'')]) =
       TextBlock (lit ''It printed hi.'') # []"
    by (simp_all add: end_turn_response_def lit_def)
  have p: "printed s1 = []"
    by (simp add: s1_def run_defs)
  from final_answer_first_text[OF n l c t] p show ?thesis by auto
qed

text \<open>
  A response that is not a tool use and has no content: \<open>response.content[0]\<close> raises
  \<open>IndexError\<close>, which the outer handler logs and raises again.
\<close>

lemma empty_final_response_raises:
  "map_option fst (agent_loop (replay_provider [end_turn_response []]) script_shell Map.empty
      (first_turn False (lit ''hello''))) =
     Some (Inl (PyExn ''IndexError'' (lit ''list index out of range''))) \<and>
   map_option fst (process_bash_command (replay_provider [end_turn_response []]) script_shell
      Map.empty (lit ''hello'') [] (init_session False Map.empty (0, 0))) =
     Some (Inl (PyExn ''IndexError'' (lit ''list index out of range'')))"
proof -
  have r: "fst (loop_round (replay_provider [end_turn_response []]) script_shell Map.empty
      (first_turn False (lit ''hello''))) =
     Inl (PyExn ''IndexError'' (lit ''list index out of range''))"
    by (simp add: run_defs)
  have l: "session_logger (snd (loop_round (replay_provider [end_turn_response []]) script_shell
      Map.empty (first_turn False (lit ''hello'')))) \<noteq> None"
    by (simp add: run_defs)
  have a: "agent_loop (replay_provider [end_turn_response []]) script_shell Map.empty
      (first_turn False (lit ''hello'')) =
     Some (Inl (PyExn ''IndexError'' (lit ''list index out of range'')),
           snd (loop_round (replay_provider [end_turn_response []]) script_shell
      Map.empty (first_turn False (lit ''hello''))))"
    by (rule agent_loop_raise) (simp add: r[symmetric])
  have q: "process_prelude (lit ''hello'') [] (init_session False Map.empty (0, 0)) =
     (Inr (), first_turn False (lit ''hello''))"
    by (simp add: first_turn_def process_prelude_def and_then_def modify_def logger_log_def
          init_session_def set_logger_def Let_def)
  from l have h: "fst (process_handler (PyExn ''IndexError'' (lit ''list index out of range''))
     (snd (loop_round (replay_provider [end_turn_response []]) script_shell
      Map.empty (first_turn False (lit ''hello''))))) =
     Inl (PyExn ''IndexError'' (lit ''list index out of range''))"
    by (auto simp: process_handler_def and_then_def logger_log_def raise_def)
  show ?thesis
    by (simp add: a process_bash_command_def q h)
qed

section \<open>The claims about the agent loop\<close>

text \<open>
  C3, evaluated where it fails: a response with two bash tool calls. The router runs both
  and returns two envelopes; the round ends without leaving the loop, and the user turn it
  has appended to the history holds the first envelope only.
\<close>

theorem two_tool_calls_first_result_only:
  "fst (process_tool_calls script_shell Map.empty
          [bash_call (lit ''tu_1'') (lit ''echo hi''), bash_call (lit ''tu_2'') (lit ''ls /nope'')]
          (snd (receive_response
             (replay_provider [tool_use_response
                [bash_call (lit ''tu_1'') (lit ''echo hi''),
                 bash_call (lit ''tu_2'') (lit ''ls /nope'')]])
             (first_turn False (lit ''two commands''))))) =
     Inr [\<lparr>tool_call_id = lit ''tu_1'', call_output =
            \<lparr>env_content = [TextParam (lit ''hi'')], tool_use_id = lit ''tu_1'',
             is_error = False\<rparr>\<rparr>,
          \<lparr>tool_call_id = lit ''tu_2'', call_output =
            \<lparr>env_content = [TextParam (lit ''ls: cannot access /nope'')],
             tool_use_id = lit ''tu_2'', is_error = True\<rparr>\<rparr>] \<and>
   fst (loop_round
          (replay_provider [tool_use_response
             [bash_call (lit ''tu_1'') (lit ''echo hi''),
              bash_call (lit ''tu_2'') (lit ''ls /nope'')]])
          script_shell Map.empty (first_turn False (lit ''two commands''))) = Inr None \<and>
   messages (snd (loop_round
          (replay_provider [tool_use_response
             [bash_call (lit ''tu_1'') (lit ''echo hi''),
              bash_call (lit ''tu_2'') (lit ''ls /nope'')]])
          script_shell Map.empty (first_turn False (lit ''two commands'')))) =
     [\<lparr>role = lit ''user'', msg_content = [TextP (lit ''two commands'')]\<rparr>,
      \<lparr>role = lit ''assistant'', msg_content =
         [ToolUseP (lit ''tu_1'') (lit ''bash'')
            \<lparr>command = Some (lit ''echo hi''), restart = None\<rparr>,
          ToolUseP (lit ''tu_2'') (lit ''bash'')
            \<lparr>command = Some (lit ''ls /nope''), restart = None\<rparr>]\<rparr>,
      \<lparr>role = lit ''user'', msg_content =
         [ToolResultP \<lparr>env_content = [TextParam (lit ''hi'')], tool_use_id = lit ''tu_1'',
                       is_error = False\<rparr>]\<rparr>]"
  by (simp add: run_defs)

text \<open>
  C4: when, in any round of a run, the first envelope has \<open>is_error = True\<close>, the loop ends
  there: its final state is the state \<open>s2\<close> in which the router left the session, with the
  user turn holding that envelope appended and the error logged. The world is that of
  \<open>s2\<close>, so neither the provider nor the shell is called again; all that follows in
  \<open>process_bash_command\<close> is the cost summary in the log.
\<close>

theorem tool_error_stops_loop:
  assumes "process_prelude bash_prompt hist si = (Inr (), s0)"
    "rounds llm sh os_environ n s0 = Some s"
    "receive_response llm s = (Inr resp, s1)" "stop_reason resp = lit ''tool_use''"
    "process_tool_calls sh os_environ (resp_content resp) s1 = (Inr (r # rs), s2)"
    "is_error (call_output r)" "session_logger s2 = Some sl2"
  shows "agent_loop llm sh os_environ s0 =
     Some (Inr Aborted,
       s2\<lparr>messages := messages s2 @
             [\<lparr>role = lit ''user'', msg_content = [ToolResultP (call_output r)]\<rparr>],
          session_logger := Some (sl2\<lparr>records := records sl2 @
             [(ERROR, bash_prefix, ErrorContent (env_content (call_output r)))]\<rparr>)\<rparr>) \<and>
     process_bash_command llm sh os_environ bash_prompt hist si =
     Some (Inr (),
       s2\<lparr>messages := messages s2 @
             [\<lparr>role = lit ''user'', msg_content = [ToolResultP (call_output r)]\<rparr>],
          session_logger := Some (log_total_cost (sl2\<lparr>records := records sl2 @
             [(ERROR, bash_prefix, ErrorContent (env_content (call_output r)))]\<rparr>))\<rparr>)"
proof -
  let ?sf = "s2\<lparr>messages := messages s2 @
             [\<lparr>role = lit ''user'', msg_content = [ToolResultP (call_output r)]\<rparr>],
          session_logger := Some (sl2\<lparr>records := records sl2 @
             [(ERROR, bash_prefix, ErrorContent (env_content (call_output r)))]\<rparr>)\<rparr>"
  have "loop_round llm sh os_environ s = (Inr (Some Aborted), ?sf)"
    using assms(3-7) by (rule round_aborted)
  from agent_loop_break[OF this] agent_loop_rounds[OF assms(2)]
  have a: "agent_loop llm sh os_environ s0 = Some (Inr Aborted, ?sf)" by simp
  have "session_logger ?sf = Some (sl2\<lparr>records := records sl2 @
             [(ERROR, bash_prefix, ErrorContent (env_content (call_output r)))]\<rparr>)"
    by simp
  from process_bash_command_after_loop[OF assms(1) a this] a show ?thesis by simp
qed


theorem tool_error_stops_loop_witness:
  "map_option fst (agent_loop
     (replay_provider [tool_use_response [bash_call (lit ''tu_1'') (lit ''false'')],
                       end_turn_response [TextBlock (lit ''not reached'')]])
     script_shell Map.empty (first_turn False (lit ''run false''))) = Some (Inr Aborted) \<and>
   map_option (world \<circ> snd) (agent_loop
     (replay_provider [tool_use_response [bash_call (lit ''tu_1'') (lit ''false'')],
                       end_turn_response [TextBlock (lit ''not reached'')]])
     script_shell Map.empty (first_turn False (lit ''run false''))) = Some (1, 1) \<and>
   map_option (messages \<circ> snd) (agent_loop
     (replay_provider [tool_use_response [bash_call (lit ''tu_1'') (lit ''false'')],
                       end_turn_response [TextBlock (lit ''not reached'')]])
     script_shell Map.empty (first_turn False (lit ''run false''))) =
     Some [\<lparr>role = lit ''user'', msg_content = [TextP (lit ''run false'')]\<rparr>,
           \<lparr>role = lit ''assistant'', msg_content =
              [ToolUseP (lit ''tu_1'') (lit ''bash'')
                 \<lparr>command = Some (lit ''false''), restart = None\<rparr>]\<rparr>,
           \<lparr>role = lit ''user'', msg_content =
              [ToolResultP \<lparr>env_content = [TextParam (lit ''Command execution failed.'')],
                            tool_use_id = lit ''tu_1'', is_error = True\<rparr>]\<rparr>] \<and>
   map_option fst (process_bash_command
     (replay_provider [tool_use_response [bash_call (lit ''tu_1'') (lit ''false'')],
                       end_turn_response [TextBlock (lit ''not reached'')]])
     script_shell Map.empty (lit ''run false'') [] (init_session False Map.empty (0, 0))) =
     Some (Inr ())"
proof -
  let ?P = "replay_provider [tool_use_response [bash_call (lit ''tu_1'') (lit ''false'')],
                       end_turn_response [TextBlock (lit ''not reached'')]]"
  let ?s0 = "first_turn False (lit ''run false'')"
  let ?resp = "tool_use_response [bash_call (lit ''tu_1'') (lit ''false'')]"
  let ?r = "\<lparr>tool_call_id = lit ''tu_1'', call_output =
              \<lparr>env_content = [TextParam (lit ''Command execution failed.'')],
               tool_use_id = lit ''tu_1'', is_error = True\<rparr>\<rparr>"
  define s1 where "s1 = snd (receive_response ?P ?s0)"
  define s2 where "s2 = snd (process_tool_calls script_shell Map.empty (resp_content ?resp) s1)"
  have q: "process_prelude (lit ''run false'') [] (init_session False Map.empty (0, 0)) =
     (Inr (), ?s0)"
    by (simp add: first_turn_def process_prelude_def and_then_def modify_def logger_log_def
          init_session_def set_logger_def Let_def)
  have n: "rounds ?P script_shell Map.empty 0 ?s0 = Some ?s0"
    by simp
  have "fst (receive_response ?P ?s0) = Inr ?resp"
    by (simp add: run_defs)
  then have a: "receive_response ?P ?s0 = (Inr ?resp, s1)"
    by (simp add: s1_def prod_eq_iff)
  have t: "stop_reason ?resp = lit ''tool_use''"
    by (simp add: tool_use_response_def)
  have "fst (process_tool_calls script_shell Map.empty (resp_content ?resp) s1) = Inr (?r # [])"
    by (simp add: s1_def run_defs)
  then have b: "process_tool_calls script_shell Map.empty (resp_content ?resp) s1 =
      (Inr (?r # []), s2)"
    by (simp add: s2_def prod_eq_iff)
  have e: "is_error (call_output ?r)"
    by simp
  have l: "session_logger s2 = Some (the (session_logger s2))"
    by (simp add: s2_def s1_def run_defs)
  have w: "world s2 = (1, 1)"
    by (simp add: s2_def s1_def run_defs)
  have m: "messages s2 =
     [\<lparr>role = lit ''user'', msg_content = [TextP (lit ''run false'')]\<rparr>,
           \<lparr>role = lit ''assistant'', msg_content =
              [ToolUseP (lit ''tu_1'') (lit ''bash'')
                 \<lparr>command = Some (lit ''false''), restart = None\<rparr>]\<rparr>]"
    by (simp add: s2_def s1_def run_defs)
  from tool_error_stops_loop[OF q n a t b e l] w m show ?thesis
    by simp
qed

text \<open>
  C9, evaluated where it fails: a response cut at the token limit whose content is a tool
  call followed by a text block. The loop does not end with the final answer: line 289
  reads \<open>text\<close> from the first block, which is the tool call, and the \<open>AttributeError\<close> is
  logged and raised again by \<open>process_bash_command\<close>; nothing is printed. The text block
  is in the history, where the scan of \<open>main.py\<close> finds it.
\<close>

theorem final_response_tool_use_first:
  "map_option fst (agent_loop
      (replay_provider [max_tokens_response
         [bash_call (lit ''tu_1'') (lit ''echo hi''), TextBlock (lit ''done'')]])
      script_shell Map.empty (first_turn False (lit ''say hi''))) =
     Some (Inl (PyExn ''AttributeError''
              (39 # lit ''BetaToolUseBlock'' @ 39 # lit '' object has no attribute '' @ 39 #
               lit ''text'' @ [39]))) \<and>
   map_option (printed \<circ> snd) (agent_loop
      (replay_provider [max_tokens_response
         [bash_call (lit ''tu_1'') (lit ''echo hi''), TextBlock (lit ''done'')]])
      script_shell Map.empty (first_turn False (lit ''say hi''))) = Some [] \<and>
   map_option (response_text \<circ> messages \<circ> snd) (agent_loop
      (replay_provider [max_tokens_response
         [bash_call (lit ''tu_1'') (lit ''echo hi''), TextBlock (lit ''done'')]])
      script_shell Map.empty (first_turn False (lit ''say hi''))) = Some (lit ''done'') \<and>
   map_option (world \<circ> snd) (agent_loop
      (replay_provider [max_tokens_response
         [bash_call (lit ''tu_1'') (lit ''echo hi''), TextBlock (lit ''done'')]])
      script_shell Map.empty (first_turn False (lit ''say hi''))) = Some (1, 0) \<and>
   map_option fst (process_bash_command
      (replay_provider [max_tokens_response
         [bash_call (lit ''tu_1'') (lit ''echo hi''), TextBlock (lit ''done'')]])
      script_shell Map.empty (lit ''say hi'') [] (init_session False Map.empty (0, 0))) =
     Some (Inl (PyExn ''AttributeError''
              (39 # lit ''BetaToolUseBlock'' @ 39 # lit '' object has no attribute '' @ 39 #
               lit ''text'' @ [39])))"
proof -
  let ?P = "replay_provider [max_tokens_response
         [bash_call (lit ''tu_1'') (lit ''echo hi''), TextBlock (lit ''done'')]]"
  let ?s0 = "first_turn False (lit ''say hi'')"
  let ?e = "PyExn ''AttributeError''
              (39 # lit ''BetaToolUseBlock'' @ 39 # lit '' object has no attribute '' @ 39 #
               lit ''text'' @ [39])"
  define s1 where "s1 = snd (loop_round ?P script_shell Map.empty ?s0)"
  have "fst (loop_round ?P script_shell Map.empty ?s0) = Inl ?e"
    by (simp add: run_defs max_tokens_response_def)
  then have "loop_round ?P script_shell Map.empty ?s0 = (Inl ?e, s1)"
    by (simp add: s1_def prod_eq_iff)
  then have a: "agent_loop ?P script_shell Map.empty ?s0 = Some (Inl ?e, s1)"
    by (rule agent_loop_raise)
  have l: "session_logger s1 \<noteq> None"
    by (simp add: s1_def run_defs max_tokens_response_def)
  have p: "printed s1 = []"
    by (simp add: s1_def run_defs max_tokens_response_def)
  have w: "world s1 = (1, 0)"
    by (simp add: s1_def run_defs max_tokens_response_def)
  have m: "response_text (messages s1) = lit ''done''"
    by (simp add: s1_def run_defs max_tokens_response_def response_text_def)
  have q: "process_prelude (lit ''say hi'') [] (init_session False Map.empty (0, 0)) =
     (Inr (), ?s0)"
    by (simp add: first_turn_def process_prelude_def and_then_def modify_def logger_log_def
          init_session_def set_logger_def Let_def)
  from l have h: "fst (process_handler ?e s1) = Inl ?e"
    by (auto simp: process_handler_def and_then_def logger_log_def raise_def)
  show ?thesis
    by (simp add: a p w m process_bash_command_def q h)
qed

end
